(* ===== verification/Prelude.thy ===== *)
theory Prelude
  imports Main "HOL-Library.AList"
begin

text \<open>
  Shared vocabulary of the development. Python names are strings and dotted module
  names are lists of their components (\<open>swift_build_support.which\<close> is
  \<open>[''swift_build_support'', ''which'']\<close>). A Python \<open>dict\<close> keeps insertion order, so
  namespaces and \<open>sys.modules\<close> are association lists updated with \<open>AList.update\<close>
  (which keeps the position of an existing key, as a \<open>dict\<close> store does) and shrunk
  with \<open>AList.delete\<close>. Every interpreter operation is a function of the interpreter
  state whose result is an \<open>outcome\<close>: \<open>None\<close> when the fuel bounding the nesting of
  imports runs out, otherwise the raised exception (\<open>Inl\<close>) or the value (\<open>Inr\<close>),
  together with the state at that point (Python keeps the effects made before an
  exception).
\<close>

named_theorems outcome_simps "evaluation rules of the outcome combinators"
named_theorems dict_simps "lookup rules of ordered dictionaries"

type_synonym ident = string
type_synonym qname = "ident list"
type_synonym 'v dict = "(ident \<times> 'v) list"
type_synonym ('e, 's, 'a) outcome = "(('e + 'a) \<times> 's) option"

definition ok :: "'a \<Rightarrow> 's \<Rightarrow> ('e, 's, 'a) outcome" where
  "ok a s = Some (Inr a, s)"

definition throw :: "'e \<Rightarrow> 's \<Rightarrow> ('e, 's, 'a) outcome" where
  "throw e s = Some (Inl e, s)"

definition obind ::
  "('e, 's, 'a) outcome \<Rightarrow> ('a \<Rightarrow> 's \<Rightarrow> ('e, 's, 'b) outcome) \<Rightarrow> ('e, 's, 'b) outcome" where
  "obind m f = (case m of
      None \<Rightarrow> None
    | Some (Inl e, s) \<Rightarrow> Some (Inl e, s)
    | Some (Inr a, s) \<Rightarrow> f a s)"

text \<open>\<open>try: m except e: h e\<close>, where the handler sees the state the exception left.\<close>

definition ocatch ::
  "('e, 's, 'a) outcome \<Rightarrow> ('e \<Rightarrow> 's \<Rightarrow> ('e, 's, 'a) outcome) \<Rightarrow> ('e, 's, 'a) outcome" where
  "ocatch m h = (case m of
      Some (Inl e, s) \<Rightarrow> h e s
    | _ \<Rightarrow> m)"

text \<open>
  Definedness order on outcomes: \<open>le_out a b\<close> when \<open>b\<close> returns whatever \<open>a\<close>
  returns (\<open>a\<close> may still be out of fuel). More fuel moves an outcome up this order.
\<close>

definition le_out :: "('e, 's, 'a) outcome \<Rightarrow> ('e, 's, 'a) outcome \<Rightarrow> bool" where
  "le_out a b \<longleftrightarrow> (\<forall>r. a = Some r \<longrightarrow> b = Some r)"

text \<open>The keys of an association list, as a set: the \<open>in\<close> test of a dict.\<close>

abbreviation keys :: "('k \<times> 'v) list \<Rightarrow> 'k set" where
  "keys al \<equiv> fst ` set al"

lemma ok_eq_iff [simp, outcome_simps]: "ok a s = ok b t \<longleftrightarrow> a = b \<and> s = t"
  by (simp add: ok_def)

lemma throw_eq_iff [simp, outcome_simps]: "throw e s = throw e' t \<longleftrightarrow> e = e' \<and> s = t"
  by (simp add: throw_def)

lemma ok_neq_throw [simp, outcome_simps]: "ok a s \<noteq> throw e t" "throw e t \<noteq> ok a s"
  by (simp_all add: ok_def throw_def)

lemma ok_throw_not_None [simp, outcome_simps]: "ok a s \<noteq> None" "throw e s \<noteq> None"
  by (simp_all add: ok_def throw_def)

lemma obind_None [simp, outcome_simps]: "obind None f = None"
  by (simp add: obind_def)

lemma obind_ok [simp, outcome_simps]: "obind (ok a s) f = f a s"
  by (simp add: obind_def ok_def)

lemma obind_throw [simp, outcome_simps]: "obind (throw e s) f = throw e s"
  by (simp add: obind_def throw_def)

lemma obind_Inr [simp, outcome_simps]: "obind (Some (Inr a, s)) f = f a s"
  by (simp add: obind_def)

lemma obind_Inl [simp, outcome_simps]: "obind (Some (Inl e, s)) f = Some (Inl e, s)"
  by (simp add: obind_def)

lemma obind_ok_right [simp, outcome_simps]: "obind m ok = m"
  by (simp add: obind_def ok_def split: option.split sum.split)

lemma ocatch_ok [simp, outcome_simps]: "ocatch (ok a s) h = ok a s"
  by (simp add: ocatch_def ok_def)

lemma ocatch_throw [simp, outcome_simps]: "ocatch (throw e s) h = h e s"
  by (simp add: ocatch_def throw_def)

lemma ocatch_None [simp, outcome_simps]: "ocatch None h = None"
  by (simp add: ocatch_def)

lemma ocatch_Inr [simp, outcome_simps]: "ocatch (Some (Inr a, s)) h = Some (Inr a, s)"
  by (simp add: ocatch_def)

lemma ocatch_Inl [simp, outcome_simps]: "ocatch (Some (Inl e, s)) h = h e s"
  by (simp add: ocatch_def)

text \<open>
  Congruence rules, so that recursive calls under the combinators are seen by the
  termination prover with the outcome they follow.
\<close>

lemma obind_cong [fundef_cong]:
  "m = m' \<Longrightarrow> (\<And>a s. m' = Some (Inr a, s) \<Longrightarrow> f a s = g a s) \<Longrightarrow> obind m f = obind m' g"
  by (auto simp: obind_def split: option.splits sum.splits)

lemma ocatch_cong [fundef_cong]:
  "m = m' \<Longrightarrow> (\<And>e s. m' = Some (Inl e, s) \<Longrightarrow> h e s = k e s) \<Longrightarrow> ocatch m h = ocatch m' k"
  by (auto simp: ocatch_def split: option.splits sum.splits)

text \<open>Inversion: what a successful or failing bind was made of.\<close>

lemma obind_eq_Some:
  "obind m f = Some r \<longleftrightarrow>
     (\<exists>e s. m = Some (Inl e, s) \<and> r = (Inl e, s)) \<or> (\<exists>a s. m = Some (Inr a, s) \<and> f a s = Some r)"
  by (auto simp: obind_def split: option.splits sum.splits)

lemma ocatch_eq_Some:
  "ocatch m h = Some r \<longleftrightarrow>
     (\<exists>a s. m = Some (Inr a, s) \<and> r = (Inr a, s)) \<or> (\<exists>e s. m = Some (Inl e, s) \<and> h e s = Some r)"
  by (auto simp: ocatch_def split: option.splits sum.splits)

lemma obind_assoc [outcome_simps]:
  "obind (obind m f) g = obind m (\<lambda>a s. obind (f a s) g)"
  by (simp add: obind_def split: option.splits sum.splits)

text \<open>
  Monotonicity of the combinators: if the first computation can only become defined
  with the same value, and so can the continuation, so can the whole. This is what a
  fuel argument needs at every bind.
\<close>

lemma obind_mono_Some:
  assumes "obind m f = Some r"
    and "\<And>r'. m = Some r' \<Longrightarrow> m' = Some r'"
    and "\<And>a s r'. m = Some (Inr a, s) \<Longrightarrow> f a s = Some r' \<Longrightarrow> g a s = Some r'"
  shows "obind m' g = Some r"
proof (cases m)
  case None
  with assms(1) show ?thesis by simp
next
  case (Some p)
  obtain v s where m: "m = Some (v, s)" using Some by (cases p) auto
  show ?thesis
  proof (cases v)
    case (Inl e)
    with m assms(1,2) show ?thesis by simp
  next
    case (Inr a)
    with m assms(1) have "f a s = Some r" by simp
    with m Inr assms(3) have "g a s = Some r" by blast
    with m Inr assms(2) show ?thesis by simp
  qed
qed

lemma ocatch_mono_Some:
  assumes "ocatch m h = Some r"
    and "\<And>r'. m = Some r' \<Longrightarrow> m' = Some r'"
    and "\<And>e s r'. m = Some (Inl e, s) \<Longrightarrow> h e s = Some r' \<Longrightarrow> k e s = Some r'"
  shows "ocatch m' k = Some r"
proof (cases m)
  case None
  with assms(1) show ?thesis by simp
next
  case (Some p)
  obtain v s where m: "m = Some (v, s)" using Some by (cases p) auto
  show ?thesis
  proof (cases v)
    case (Inl e)
    with m assms(1) have "h e s = Some r" by simp
    with m Inl assms(3) have "k e s = Some r" by blast
    with m Inl assms(2) show ?thesis by simp
  next
    case (Inr a)
    with m assms(1) have "r = (Inr a, s)" by simp
    with m Inr assms(2) show ?thesis by simp
  qed
qed

lemma le_out_refl [simp, intro!]: "le_out a a"
  by (simp add: le_out_def)

lemma le_out_None [simp, intro!]: "le_out None b"
  by (simp add: le_out_def)

lemma le_out_obind [intro!]:
  "le_out m m' \<Longrightarrow> (\<And>a s. m = Some (Inr a, s) \<Longrightarrow> le_out (f a s) (g a s)) \<Longrightarrow>
   le_out (obind m f) (obind m' g)"
  unfolding le_out_def by (blast intro: obind_mono_Some)

lemma le_out_ocatch [intro!]:
  "le_out m m' \<Longrightarrow> (\<And>e s. m = Some (Inl e, s) \<Longrightarrow> le_out (h e s) (k e s)) \<Longrightarrow>
   le_out (ocatch m h) (ocatch m' k)"
  unfolding le_out_def by (blast intro: ocatch_mono_Some)

lemma le_out_trans: "le_out a b \<Longrightarrow> le_out b c \<Longrightarrow> le_out a c"
  by (simp add: le_out_def)

lemma le_out_SomeD: "le_out a b \<Longrightarrow> a = Some r \<Longrightarrow> b = Some r"
  by (simp add: le_out_def)

text \<open>A family of outcomes that grows with each unit of fuel grows with any amount.\<close>

lemma le_out_mono_nat:
  assumes "\<And>n. le_out (f n) (f (Suc n))" and "n \<le> m"
  shows "le_out (f n) (f m)"
  using assms(2)
proof (induction m)
  case (Suc m)
  then show ?case
    using le_out_trans [OF _ assms(1) [of m]] by (auto simp: le_Suc_eq)
qed simp

text \<open>Ordered dictionaries: lookup after store and delete, and their keys.\<close>

lemma map_of_update_same [simp, dict_simps]: "map_of (AList.update k v al) k = Some v"
  by (simp add: update_conv')

lemma map_of_update_other [simp, dict_simps]:
  "k' \<noteq> k \<Longrightarrow> map_of (AList.update k v al) k' = map_of al k'"
  by (simp add: update_conv')

lemma keys_update [simp, dict_simps]: "keys (AList.update k v al) = insert k (keys al)"
  by (simp add: dom_update)

lemma keys_delete [simp, dict_simps]: "keys (AList.delete k al) = keys al - {k}"
  by (induction al) auto

lemma map_of_delete_same [simp, dict_simps]: "map_of (AList.delete k al) k = None"
  by (simp add: delete_conv')

lemma keys_delete_append [dict_simps]:
  "k \<in> keys al \<Longrightarrow> keys (AList.delete k al @ [(k, v)]) = keys al"
  by auto

lemma map_of_delete_append [dict_simps]:
  "map_of (AList.delete k al @ [(k, v)]) = (map_of al)(k \<mapsto> v)"
  by (rule ext) (simp add: map_of_append delete_conv' map_add_def split: option.splits)

lemma delete_update_absent [dict_simps]:
  "k \<notin> keys al \<Longrightarrow> AList.delete k (AList.update k v al) = al"
  by (induction al) auto

lemma map_fst_update [dict_simps]:
  "map fst (AList.update k v al) = (if k \<in> keys al then map fst al else map fst al @ [k])"
  by (induction al) auto

lemma map_fst_delete [dict_simps]: "map fst (AList.delete k al) = filter (\<lambda>k'. k' \<noteq> k) (map fst al)"
  by (induction al) auto

lemma map_of_None_keys [dict_simps]: "map_of al k = None \<longleftrightarrow> k \<notin> keys al"
  by (simp add: map_of_eq_None_iff)

end
