(* ===== verification/PyObjects.thy ===== *)
theory PyObjects
  imports Prelude
begin

text \<open>
  The part of the Python 3 import system that a package initializer runs through:
  module objects and \<open>sys.modules\<close>, the statements a module body executes at import
  time, and the import algorithm of \<open>importlib._bootstrap\<close> (\<open>_gcd_import\<close>,
  \<open>_find_and_load_unlocked\<close>, \<open>_load_unlocked\<close>, \<open>_handle_fromlist\<close>) together with
  the interpreter's \<open>IMPORT_FROM\<close> and \<open>IMPORT_STAR\<close>. The source files on the import
  path are a \<open>finder\<close>: for a qualified name, whether it is a package
  (\<open>__init__.py\<close>) and the statements of its body. A module object is identified by
  its qualified name: \<open>VModule q\<close> refers to the entry of \<open>sys.modules\<close> at \<open>q\<close>.
  The nesting of imports is bounded by fuel; running out is \<open>None\<close>.
\<close>

section \<open>Objects, exceptions, statements\<close>

datatype pyval =
    VNone
  | VStr string
  | VList "pyval list"
  | VModule qname
  | VFunc qname ident  \<comment> \<open>a function object defined by a \<open>def\<close> in the named module\<close>

record pymodule =
  is_package :: bool  \<comment> \<open>the module has a \<open>__path__\<close>\<close>
  mod_dict :: "pyval dict"

datatype exc =
    ModuleNotFoundError qname
  | ImportErrorName ident qname  \<comment> \<open>cannot import name x from m\<close>
  | ImportErrorNoParent  \<comment> \<open>attempted relative import with no known parent package\<close>
  | ImportErrorBeyondTop  \<comment> \<open>attempted relative import beyond top-level package\<close>
  | ValueErrorEmpty  \<comment> \<open>Empty module name\<close>
  | AttributeError qname ident  \<comment> \<open>module m has no attribute x\<close>
  | TypeErrorAll qname  \<comment> \<open>Item in m.__all__ must be str\<close>
  | TypeErrorNotIterable qname  \<comment> \<open>m.__all__ is not iterable\<close>
  | NameError ident
  | KeyError qname  \<comment> \<open>a \<open>sys.modules[...]\<close> lookup that failed\<close>
  | Raised string  \<comment> \<open>an exception raised by a module body itself\<close>

datatype expr = ENone | EStr string | EList "expr list" | EName ident

datatype stmt =
    Import qname  \<comment> \<open>\<open>import a.b.c\<close>\<close>
  | ImportFrom nat qname "ident list"  \<comment> \<open>\<open>from ..a.b import x, y\<close>: level, module, names\<close>
  | ImportStar nat qname  \<comment> \<open>\<open>from ..a.b import *\<close>\<close>
  | Assign ident expr
  | Def ident
  | Raise string

type_synonym finder = "qname \<Rightarrow> (bool \<times> stmt list) option"

record interp =
  sys_modules :: "(qname \<times> pymodule) list"

type_synonym 'a result = "(exc, interp, 'a) outcome"

section \<open>sys.modules and module namespaces\<close>

definition get_module :: "interp \<Rightarrow> qname \<Rightarrow> pymodule option" where
  "get_module s q = map_of (sys_modules s) q"

definition loaded :: "interp \<Rightarrow> qname \<Rightarrow> bool" where
  "loaded s q \<longleftrightarrow> get_module s q \<noteq> None"

definition mod_attr :: "interp \<Rightarrow> qname \<Rightarrow> ident \<Rightarrow> pyval option" where
  "mod_attr s q x = (case get_module s q of None \<Rightarrow> None | Some m \<Rightarrow> map_of (mod_dict m) x)"

definition module_is_package :: "interp \<Rightarrow> qname \<Rightarrow> bool" where
  "module_is_package s q = (case get_module s q of None \<Rightarrow> False | Some m \<Rightarrow> is_package m)"

text \<open>\<open>setattr(module, x, v)\<close>: a store into the module's \<open>__dict__\<close>.\<close>

definition set_attr :: "qname \<Rightarrow> ident \<Rightarrow> pyval \<Rightarrow> interp \<Rightarrow> interp" where
  "set_attr q x v s = (case get_module s q of
      None \<Rightarrow> s
    | Some m \<Rightarrow> s\<lparr>sys_modules := AList.update q (m\<lparr>mod_dict := AList.update x v (mod_dict m)\<rparr>)
                                   (sys_modules s)\<rparr>)"

text \<open>\<open>sys.modules[q] = module\<close> for a fresh module object, before its body runs.\<close>

definition add_module :: "qname \<Rightarrow> bool \<Rightarrow> interp \<Rightarrow> interp" where
  "add_module q pkg s =
     s\<lparr>sys_modules := AList.update q \<lparr>is_package = pkg, mod_dict = []\<rparr> (sys_modules s)\<rparr>"

text \<open>\<open>del sys.modules[q]\<close> after a failed body (a missing key is ignored there).\<close>

definition drop_module :: "qname \<Rightarrow> interp \<Rightarrow> interp" where
  "drop_module q s = s\<lparr>sys_modules := AList.delete q (sys_modules s)\<rparr>"

text \<open>
  \<open>module = sys.modules.pop(name); sys.modules[name] = module\<close> at the end of
  \<open>_load_unlocked\<close>: the entry moves to the end of the dict.
\<close>

definition move_to_end :: "qname \<Rightarrow> interp \<Rightarrow> unit result" where
  "move_to_end q s = (case get_module s q of
      None \<Rightarrow> throw (KeyError q) s
    | Some m \<Rightarrow> ok () (s\<lparr>sys_modules := AList.delete q (sys_modules s) @ [(q, m)]\<rparr>))"

text \<open>\<open>__package__\<close>: a package is its own package, a plain module its parent's.\<close>

definition package_of :: "interp \<Rightarrow> qname \<Rightarrow> qname" where
  "package_of s q = (if module_is_package s q then q else butlast q)"

text \<open>\<open>_sanity_check\<close> and \<open>_resolve_name\<close>: the absolute name of a relative import.\<close>

definition resolve_name :: "qname \<Rightarrow> nat \<Rightarrow> qname \<Rightarrow> exc + qname" where
  "resolve_name pkg level m =
     (if level = 0 then (if m = [] then Inl ValueErrorEmpty else Inr m)
      else if pkg = [] then Inl ImportErrorNoParent
      else if length pkg < level then Inl ImportErrorBeyondTop
      else Inr (take (length pkg - (level - 1)) pkg @ m))"

section \<open>Expressions and name binding\<close>

fun eval_expr :: "pyval dict \<Rightarrow> expr \<Rightarrow> exc + pyval"
and eval_exprs :: "pyval dict \<Rightarrow> expr list \<Rightarrow> exc + pyval list" where
  "eval_expr ns ENone = Inr VNone"
| "eval_expr ns (EStr t) = Inr (VStr t)"
| "eval_expr ns (EName x) = (case map_of ns x of None \<Rightarrow> Inl (NameError x) | Some v \<Rightarrow> Inr v)"
| "eval_expr ns (EList es) = (case eval_exprs ns es of Inl e \<Rightarrow> Inl e | Inr vs \<Rightarrow> Inr (VList vs))"
| "eval_exprs ns [] = Inr []"
| "eval_exprs ns (e # es) = (case eval_expr ns e of
      Inl x \<Rightarrow> Inl x
    | Inr v \<Rightarrow> (case eval_exprs ns es of Inl x \<Rightarrow> Inl x | Inr vs \<Rightarrow> Inr (v # vs)))"

definition module_ns :: "interp \<Rightarrow> qname \<Rightarrow> pyval dict" where
  "module_ns s q = (case get_module s q of None \<Rightarrow> [] | Some m \<Rightarrow> mod_dict m)"

text \<open>Iterating over \<open>__all__\<close>: a list yields its items, a string its characters.\<close>

fun iter_items :: "pyval \<Rightarrow> pyval list option" where
  "iter_items (VList vs) = Some vs"
| "iter_items (VStr t) = Some (map (\<lambda>c. VStr [c]) t)"
| "iter_items _ = None"

text \<open>
  \<open>IMPORT_FROM\<close>: \<open>getattr(module, x)\<close>, falling back to \<open>sys.modules['m.x']\<close>, else
  \<open>ImportError: cannot import name\<close>.
\<close>

definition import_from :: "interp \<Rightarrow> qname \<Rightarrow> ident \<Rightarrow> exc + pyval" where
  "import_from s t x = (case mod_attr s t x of
      Some v \<Rightarrow> Inr v
    | None \<Rightarrow> if loaded s (t @ [x]) then Inr (VModule (t @ [x])) else Inl (ImportErrorName x t))"

text \<open>The \<open>STORE_NAME\<close>s after the \<open>IMPORT_FROM\<close>s of one statement, left to right.\<close>

fun bind_from :: "qname \<Rightarrow> qname \<Rightarrow> ident list \<Rightarrow> interp \<Rightarrow> unit result" where
  "bind_from q t [] s = ok () s"
| "bind_from q t (x # xs) s = (case import_from s t x of
      Inl e \<Rightarrow> throw e s
    | Inr v \<Rightarrow> bind_from q t xs (set_attr q x v s))"

text \<open>
  \<open>import_all_from\<close> of \<open>ceval.c\<close>: each name must be a string; names starting with an
  underscore are skipped when the list came from \<open>__dict__\<close> (no \<open>__all__\<close>); a name
  the module lacks raises \<open>AttributeError\<close>.
\<close>

fun bind_names :: "bool \<Rightarrow> qname \<Rightarrow> qname \<Rightarrow> pyval list \<Rightarrow> interp \<Rightarrow> unit result" where
  "bind_names skip q t [] s = ok () s"
| "bind_names skip q t (VStr x # xs) s =
     (if skip \<and> take 1 x = ''_'' then bind_names skip q t xs s
      else case mod_attr s t x of
        None \<Rightarrow> throw (AttributeError t x) s
      | Some v \<Rightarrow> bind_names skip q t xs (set_attr q x v s))"
| "bind_names skip q t (_ # xs) s = throw (TypeErrorAll t) s"

definition import_all_from :: "qname \<Rightarrow> qname \<Rightarrow> interp \<Rightarrow> unit result" where
  "import_all_from q t s = (case mod_attr s t ''__all__'' of
      None \<Rightarrow> bind_names True q t (map (VStr \<circ> fst) (module_ns s t)) s
    | Some av \<Rightarrow> (case iter_items av of
        None \<Rightarrow> throw (TypeErrorNotIterable t) s
      | Some items \<Rightarrow> bind_names False q t items s))"

section \<open>Frame lemmas: which operations change the set of loaded modules\<close>

definition mods :: "interp \<Rightarrow> qname set" where
  "mods s = keys (sys_modules s)"

text \<open>\<open>list(sys.modules)\<close>: the loaded names in the order of the dict.\<close>

definition module_order :: "interp \<Rightarrow> qname list" where
  "module_order s = map fst (sys_modules s)"

lemma loaded_iff_mods: "loaded s q \<longleftrightarrow> q \<in> mods s"
  by (simp add: loaded_def get_module_def mods_def map_of_None_keys)

lemma get_module_mods: "get_module s q = Some m \<Longrightarrow> q \<in> mods s"
  using loaded_iff_mods [of s q] by (simp add: loaded_def)

lemma mods_set_attr [simp]: "mods (set_attr q x v s) = mods s"
  by (auto simp: set_attr_def mods_def dest: get_module_mods [unfolded mods_def] split: option.splits)

lemma mods_add_module [simp]: "mods (add_module q pkg s) = insert q (mods s)"
  by (simp add: add_module_def mods_def)

lemma mods_drop_module [simp]: "mods (drop_module q s) = mods s - {q}"
  by (simp add: drop_module_def mods_def)

lemma move_to_end_mods: "move_to_end q s = Some (r, s') \<Longrightarrow> mods s' = mods s"
proof (cases "get_module s q")
  case (Some m)
  assume "move_to_end q s = Some (r, s')"
  with Some have "s' = s\<lparr>sys_modules := AList.delete q (sys_modules s) @ [(q, m)]\<rparr>"
    by (simp add: move_to_end_def ok_def)
  moreover have "q \<in> keys (sys_modules s)"
    using get_module_mods [OF Some] by (simp add: mods_def)
  ultimately show ?thesis by (simp add: mods_def insert_absorb)
qed (simp_all add: move_to_end_def throw_def)

lemma bind_from_mods: "bind_from q t xs s = Some (r, s') \<Longrightarrow> mods s' = mods s"
  by (induction xs arbitrary: s) (fastforce simp: ok_def throw_def split: sum.splits)+

lemma bind_names_mods: "bind_names skip q t vs s = Some (r, s') \<Longrightarrow> mods s' = mods s"
  by (induction skip q t vs s rule: bind_names.induct)
    (fastforce simp: ok_def throw_def split: option.splits if_splits)+

lemma import_all_from_mods: "import_all_from q t s = Some (r, s') \<Longrightarrow> mods s' = mods s"
  by (auto simp: import_all_from_def throw_def split: option.splits dest: bind_names_mods)

section \<open>Namespace lemmas: lookups after the state-changing operations\<close>

lemma get_module_set_attr:
  "get_module (set_attr q x v s) q' =
     (if q' = q then map_option (\<lambda>m. m\<lparr>mod_dict := AList.update x v (mod_dict m)\<rparr>) (get_module s q)
      else get_module s q')"
  by (auto simp: set_attr_def get_module_def update_conv' split: option.splits)

lemma loaded_set_attr [simp]: "loaded (set_attr q x v s) q' = loaded s q'"
  by (simp add: loaded_def get_module_set_attr)

lemma module_is_package_set_attr [simp]:
  "module_is_package (set_attr q x v s) q' = module_is_package s q'"
  by (simp add: module_is_package_def get_module_set_attr split: option.splits)

lemma mod_attr_set_attr [simp]:
  "mod_attr (set_attr q x v s) q' y =
     (if q' = q \<and> y = x \<and> loaded s q then Some v else mod_attr s q' y)"
  by (auto simp: mod_attr_def get_module_set_attr loaded_def split: option.splits)

lemma mod_attr_set_attr_same:
  "loaded s q \<Longrightarrow> mod_attr (set_attr q x v s) q = (mod_attr s q)(x \<mapsto> v)"
  by (simp add: fun_eq_iff)

lemma get_module_add_module:
  "get_module (add_module q pkg s) q' =
     (if q' = q then Some \<lparr>is_package = pkg, mod_dict = []\<rparr> else get_module s q')"
  by (simp add: add_module_def get_module_def update_conv')

lemma loaded_add_module [simp]: "loaded (add_module q pkg s) q' \<longleftrightarrow> q' = q \<or> loaded s q'"
  by (simp add: loaded_def get_module_add_module)

lemma module_is_package_add_module [simp]:
  "module_is_package (add_module q pkg s) q' = (if q' = q then pkg else module_is_package s q')"
  by (simp add: module_is_package_def get_module_add_module)

lemma mod_attr_add_module [simp]:
  "mod_attr (add_module q pkg s) q' y = (if q' = q then None else mod_attr s q' y)"
  by (simp add: mod_attr_def get_module_add_module)

lemma move_to_end_loaded:
  assumes "loaded s q"
  shows "\<exists>s'. move_to_end q s = ok () s' \<and> get_module s' = get_module s \<and> mods s' = mods s"
proof -
  from assms obtain m where m: "get_module s q = Some m" by (auto simp: loaded_def)
  let ?s' = "s\<lparr>sys_modules := AList.delete q (sys_modules s) @ [(q, m)]\<rparr>"
  have "move_to_end q s = ok () ?s'" by (simp add: move_to_end_def m)
  moreover have "get_module ?s' = get_module s"
  proof
    fix q'
    show "get_module ?s' q' = get_module s q'"
      using m by (cases "q' = q") (simp_all add: get_module_def map_of_delete_append del: map_of_append)
  qed
  moreover have "mods ?s' = mods s"
    using move_to_end_mods calculation(1) by (simp add: ok_def)
  ultimately show ?thesis by blast
qed

section \<open>The order of sys.modules\<close>

lemma set_module_order [simp]: "set (module_order s) = mods s"
  by (simp add: module_order_def mods_def)

lemma module_order_set_attr [simp]: "module_order (set_attr q x v s) = module_order s"
  by (cases "get_module s q")
     (auto simp: set_attr_def module_order_def map_fst_update dest: get_module_mods [unfolded mods_def])

lemma module_order_add_module:
  "\<not> loaded s q \<Longrightarrow> module_order (add_module q pkg s) = module_order s @ [q]"
  by (simp add: add_module_def module_order_def map_fst_update loaded_iff_mods mods_def)

lemma module_order_drop_module [simp]:
  "module_order (drop_module q s) = filter (\<lambda>k. k \<noteq> q) (module_order s)"
  by (simp add: drop_module_def module_order_def map_fst_delete)

lemma move_to_end_order:
  "move_to_end q s = Some (Inr a, s') \<Longrightarrow> module_order s' = filter (\<lambda>k. k \<noteq> q) (module_order s) @ [q]"
  by (auto simp: move_to_end_def module_order_def map_fst_delete ok_def throw_def split: option.splits)

text \<open>Deleting an entry just registered for an absent name restores \<open>sys.modules\<close>.\<close>

lemma drop_module_add_module:
  "\<not> loaded s q \<Longrightarrow> drop_module q (add_module q pkg s) = s"
  by (simp add: drop_module_def add_module_def loaded_iff_mods mods_def delete_update_absent)

lemma mod_attr_cong_get_module:
  "get_module s' = get_module s \<Longrightarrow> mod_attr s' = mod_attr s"
  by (simp add: mod_attr_def [abs_def])

lemma eval_exprs_strings [simp]: "eval_exprs ns (map EStr xs) = Inr (map VStr xs)"
  by (induction xs) auto

lemma move_to_end_Inr:
  "move_to_end q s = Some (Inr a, s') \<Longrightarrow> loaded s' q \<and> get_module s' = get_module s"
  using move_to_end_loaded [of s q]
  by (cases "loaded s q") (auto simp: move_to_end_def ok_def throw_def loaded_def split: option.splits)

lemma move_to_end_Inl:
  "move_to_end q s = Some (Inl e, s') \<Longrightarrow> s' = s \<and> \<not> loaded s q"
  by (auto simp: move_to_end_def ok_def throw_def loaded_def split: option.splits)

text \<open>The definitions a concrete run unfolds, for evaluating examples by \<open>simp\<close>.\<close>

lemmas interp_defs = get_module_def loaded_def add_module_def drop_module_def move_to_end_def
  set_attr_def mod_attr_def module_is_package_def module_ns_def package_of_def resolve_name_def
  import_from_def import_all_from_def ok_def throw_def

end
