(* ===== verification/Importlib.thy ===== *)
theory Importlib
  imports PyObjects
begin

text \<open>
  The import algorithm of CPython's \<open>importlib._bootstrap\<close> and the import statements
  of the interpreter, as one mutually recursive function family with fuel:
  \<^item> \<open>gcd_import\<close> is \<open>_gcd_import\<close>/\<open>_find_and_load\<close>: a name already in
    \<open>sys.modules\<close> is returned as it is, otherwise it is loaded; each call spends one
    unit of fuel, so the fuel bounds the nesting depth of imports;
  \<^item> \<open>find_and_load_unlocked\<close> imports the parent package first, re-checks
    \<open>sys.modules\<close> (the parent's body may have imported the child), requires the parent
    to be a package, loads the module and binds it as an attribute of the parent;
  \<^item> \<open>load_unlocked\<close> is \<open>_load_unlocked\<close>: it registers a fresh module in
    \<open>sys.modules\<close>, runs its body, deletes the entry again if the body raises, and
    finally moves the entry to the end of \<open>sys.modules\<close>;
  \<^item> \<open>exec_body\<close>/\<open>exec_stmt\<close> run a module body statement by statement;
  \<^item> \<open>handle_fromlist\<close> is \<open>_handle_fromlist\<close>: for a package, every name of a
    from-list (or of \<open>__all__\<close>) that is not yet an attribute is imported as a
    submodule, and a \<open>ModuleNotFoundError\<close> for exactly that submodule is swallowed.
\<close>

section \<open>The import functions\<close>

function (sequential) gcd_import :: "nat \<Rightarrow> finder \<Rightarrow> qname \<Rightarrow> interp \<Rightarrow> unit result"
and find_and_load_unlocked :: "nat \<Rightarrow> finder \<Rightarrow> qname \<Rightarrow> interp \<Rightarrow> unit result"
and load_unlocked :: "nat \<Rightarrow> finder \<Rightarrow> qname \<Rightarrow> interp \<Rightarrow> unit result"
and exec_body :: "nat \<Rightarrow> finder \<Rightarrow> qname \<Rightarrow> stmt list \<Rightarrow> interp \<Rightarrow> unit result"
and exec_stmt :: "nat \<Rightarrow> finder \<Rightarrow> qname \<Rightarrow> stmt \<Rightarrow> interp \<Rightarrow> unit result"
and handle_fromlist :: "nat \<Rightarrow> finder \<Rightarrow> qname \<Rightarrow> pyval list \<Rightarrow> interp \<Rightarrow> unit result" where
  "gcd_import 0 F q s = None"
| "gcd_import (Suc n) F q s =
     (if q = [] then throw ValueErrorEmpty s
      else if loaded s q then ok () s
      else find_and_load_unlocked n F q s)"
| "find_and_load_unlocked n F q s =
     (let p = butlast q in
      if p = [] then load_unlocked n F q s
      else obind (if loaded s p then ok () s else gcd_import n F p s) (\<lambda>_ s1.
        if loaded s1 q then ok () s1
        else case get_module s1 p of
          None \<Rightarrow> throw (KeyError p) s1
        | Some pm \<Rightarrow>
            if \<not> is_package pm then throw (ModuleNotFoundError q) s1
            else obind (load_unlocked n F q s1) (\<lambda>_ s2.
              if loaded s2 p then ok () (set_attr p (last q) (VModule q) s2)
              else throw (KeyError p) s2)))"
| "load_unlocked n F q s =
     (case F q of
       None \<Rightarrow> throw (ModuleNotFoundError q) s
     | Some (pkg, body) \<Rightarrow>
         obind (ocatch (exec_body n F q body (add_module q pkg s))
                       (\<lambda>e s'. throw e (drop_module q s')))
               (\<lambda>_ s'. move_to_end q s'))"
| "exec_body n F q [] s = ok () s"
| "exec_body n F q (st # sts) s = obind (exec_stmt n F q st s) (\<lambda>_ s'. exec_body n F q sts s')"
| "exec_stmt n F q (Import m) s =
     (if m = [] then throw ValueErrorEmpty s
      else obind (gcd_import n F m s) (\<lambda>_ s1.
        obind (gcd_import n F [hd m] s1) (\<lambda>_ s2. ok () (set_attr q (hd m) (VModule [hd m]) s2))))"
| "exec_stmt n F q (ImportFrom lvl m xs) s =
     (case resolve_name (package_of s q) lvl m of
       Inl e \<Rightarrow> throw e s
     | Inr t \<Rightarrow> obind (gcd_import n F t s) (\<lambda>_ s1.
         obind (if module_is_package s1 t then handle_fromlist n F t (map VStr xs) s1 else ok () s1)
           (\<lambda>_ s2. bind_from q t xs s2)))"
| "exec_stmt n F q (ImportStar lvl m) s =
     (case resolve_name (package_of s q) lvl m of
       Inl e \<Rightarrow> throw e s
     | Inr t \<Rightarrow> obind (gcd_import n F t s) (\<lambda>_ s1.
         obind (if module_is_package s1 t then
                  (case mod_attr s1 t ''__all__'' of
                    None \<Rightarrow> ok () s1
                  | Some av \<Rightarrow> (case iter_items av of
                      None \<Rightarrow> throw (TypeErrorNotIterable t) s1
                    | Some items \<Rightarrow> handle_fromlist n F t items s1))
                else ok () s1)
           (\<lambda>_ s2. import_all_from q t s2)))"
| "exec_stmt n F q (Assign x e) s =
     (case eval_expr (module_ns s q) e of
       Inl ex \<Rightarrow> throw ex s
     | Inr v \<Rightarrow> ok () (set_attr q x v s))"
| "exec_stmt n F q (Def f) s = ok () (set_attr q f (VFunc q f) s)"
| "exec_stmt n F q (Raise msg) s = throw (Raised msg) s"
| "handle_fromlist n F t [] s = ok () s"
| "handle_fromlist n F t (VStr x # xs) s =
     obind (if x = ''*'' \<or> mod_attr s t x \<noteq> None then ok () s
            else ocatch (gcd_import n F (t @ [x]) s)
                   (\<lambda>e s'. if e = ModuleNotFoundError (t @ [x]) then ok () s' else throw e s'))
       (\<lambda>_ s'. handle_fromlist n F t xs s')"
| "handle_fromlist n F t (_ # xs) s = throw (TypeErrorAll t) s"


  by pat_completeness auto
termination by size_change


section \<open>Fuel and the loaded-module invariant\<close>

text \<open>
  One computation induction over the whole function family for each property;
  \<open>import_induct\<close> names its rule.
\<close>

lemmas import_induct = gcd_import_find_and_load_unlocked_load_unlocked_exec_body_exec_stmt_handle_fromlist.induct

lemma fuel_Suc:
  "le_out (gcd_import n F q s) (gcd_import (Suc n) F q s)"
  "le_out (find_and_load_unlocked n F q s) (find_and_load_unlocked (Suc n) F q s)"
  "le_out (load_unlocked n F q s) (load_unlocked (Suc n) F q s)"
  "le_out (exec_body n F q b s) (exec_body (Suc n) F q b s)"
  "le_out (exec_stmt n F q st s) (exec_stmt (Suc n) F q st s)"
  "le_out (handle_fromlist n F t xs s) (handle_fromlist (Suc n) F t xs s)"
proof (induction n F q s and n F q s and n F q s and n F q b s and n F q st s and n F t xs s
       rule: import_induct)
  case (2 n F q s)
  then show ?case by (simp del: find_and_load_unlocked.simps)
next
  case (3 n F q s)
  then show ?case
    by (auto simp: Let_def ok_def split: option.splits simp del: gcd_import.simps load_unlocked.simps)
next
  case (4 n F q s)
  then show ?case
    by (auto split: option.splits simp del: exec_body.simps)
next
  case (6 n F q st sts s)
  then show ?case by (auto simp del: exec_stmt.simps)
next
  case (7 n F q m s)
  then show ?case by (auto simp del: gcd_import.simps)
next
  case (8 n F q lvl m xs s)
  then show ?case by (auto split: sum.splits simp del: gcd_import.simps handle_fromlist.simps)
next
  case (9 n F q lvl m s)
  then show ?case
    by (auto split: sum.splits option.splits simp del: gcd_import.simps handle_fromlist.simps)
next
  case (14 n F t x xs s)
  then show ?case by (auto simp: ok_def simp del: gcd_import.simps)
qed simp_all

text \<open>
  The loaded set grows along a bind when it grows along both parts; the rules the
  invariant proof applies at every sequencing point of a module body.
\<close>

lemma obind_mods:
  assumes "obind m f = Some (r, s')"
    and "\<And>r1 s1. m = Some (r1, s1) \<Longrightarrow> mods s \<subseteq> mods s1"
    and "\<And>a s1 r2 s2. m = Some (Inr a, s1) \<Longrightarrow> f a s1 = Some (r2, s2) \<Longrightarrow> mods s1 \<subseteq> mods s2"
  shows "mods s \<subseteq> mods s'"
  using assms by (auto simp: obind_eq_Some) blast

lemma cond_ok_mods:
  "(if c then m else ok a s) = Some (r, s') \<Longrightarrow> (c \<Longrightarrow> m = Some (r, s') \<Longrightarrow> mods s \<subseteq> mods s') \<Longrightarrow>
   mods s \<subseteq> mods s'"
  by (auto simp: ok_def split: if_splits)

lemma import_mods_mono:
  "gcd_import n F q s = Some (r, s') \<Longrightarrow> mods s \<subseteq> mods s'"
  "find_and_load_unlocked n F q s = Some (r, s') \<Longrightarrow> \<not> loaded s q \<Longrightarrow> mods s \<subseteq> mods s'"
  "load_unlocked n F q s = Some (r, s') \<Longrightarrow> \<not> loaded s q \<Longrightarrow> mods s \<subseteq> mods s'"
  "exec_body n F q b s = Some (r, s') \<Longrightarrow> mods s \<subseteq> mods s'"
  "exec_stmt n F q st s = Some (r, s') \<Longrightarrow> mods s \<subseteq> mods s'"
  "handle_fromlist n F t xs s = Some (r, s') \<Longrightarrow> mods s \<subseteq> mods s'"
proof (induction n F q s and n F q s and n F q s and n F q b s and n F q st s and n F t xs s
       arbitrary: r s' and r s' and r s' and r s' and r s' and r s' rule: import_induct)
  case (2 n F q s)
  then show ?case
    by (auto simp: ok_def throw_def split: if_splits simp del: find_and_load_unlocked.simps)
next
  case (3 n F q s)
  define p where "p = butlast q"
  show ?case
  proof (cases "p = []")
    case True
    with "3.prems" "3.IH"(1) show ?thesis by (simp add: p_def)
  next
    case False
    define first where "first = (if loaded s p then ok () s else gcd_import n F p s)"
    define L where "L s1 = obind (load_unlocked n F q s1) (\<lambda>_ s2.
      if loaded s2 p then ok () (set_attr p (last q) (VModule q) s2) else throw (KeyError p) s2)"
      for s1
    have first_mods: "mods s \<subseteq> mods s1" if "first = Some (v, s1)" for v s1
      using that "3.IH"(2) [OF p_def False] by (auto simp: first_def ok_def split: if_splits)
    have L_mods: "mods s1 \<subseteq> mods s'"
      if "first = Some (Inr a, s1)" "\<not> loaded s1 q" "get_module s1 p = Some pm" "is_package pm"
        "L s1 = Some (r, s')" for a s1 pm
    proof -
      from that(5) obtain r2 s2 where l: "load_unlocked n F q s1 = Some (r2, s2)" and "mods s' = mods s2"
        by (auto simp: L_def obind_eq_Some ok_def throw_def split: if_splits)
      moreover have "mods s1 \<subseteq> mods s2"
        using "3.IH"(3) [OF p_def False that(1)[unfolded first_def] that(2) that(3) _ l] that(2,4)
        by simp
      ultimately show ?thesis by simp
    qed
    have eq: "find_and_load_unlocked n F q s = obind first (\<lambda>_ s1. if loaded s1 q then ok () s1
        else case get_module s1 p of
          None \<Rightarrow> throw (KeyError p) s1
        | Some pm \<Rightarrow> if \<not> is_package pm then throw (ModuleNotFoundError q) s1 else L s1)"
      unfolding find_and_load_unlocked.simps [of n F q s] Let_def first_def L_def p_def [symmetric]
      using False by simp
    from "3.prems"(1) have "obind first (\<lambda>_ s1. if loaded s1 q then ok () s1
        else case get_module s1 p of
          None \<Rightarrow> throw (KeyError p) s1
        | Some pm \<Rightarrow> if \<not> is_package pm then throw (ModuleNotFoundError q) s1 else L s1) = Some (r, s')"
      by (simp only: eq)
    then consider (err) e where "first = Some (Inl e, s')"
      | (cont) a s1 where "first = Some (Inr a, s1)" "(if loaded s1 q then ok () s1
        else case get_module s1 p of
          None \<Rightarrow> throw (KeyError p) s1
        | Some pm \<Rightarrow> if \<not> is_package pm then throw (ModuleNotFoundError q) s1 else L s1) = Some (r, s')"
      unfolding obind_eq_Some by blast
    then show ?thesis
    proof cases
      case (cont a s1)
      then show ?thesis
        using first_mods [OF cont(1)] L_mods [OF cont(1)]
        by (auto simp: ok_def throw_def split: if_splits option.splits)
    qed (auto dest: first_mods)
  qed
next
  case (4 n F q s)
  show ?case
  proof (cases "F q")
    case None
    with "4.prems" show ?thesis by (simp add: throw_def)
  next
    case (Some fb)
    then obtain pkg body where fq: "F q = Some (pkg, body)" by (cases fb) auto
    let ?s0 = "add_module q pkg s"
    from "4.prems"(1) fq obtain r1 s1 where
      ex: "exec_body n F q body ?s0 = Some (r1, s1)" and
      rest: "obind (ocatch (Some (r1, s1)) (\<lambda>e s'. throw e (drop_module q s'))) (\<lambda>_. move_to_end q)
               = Some (r, s')"
      by (cases "exec_body n F q body ?s0") auto
    have "mods ?s0 \<subseteq> mods s1" using "4.IH" [OF fq refl ex] .
    with "4.prems"(2) have "mods s \<subseteq> mods s1 - {q}" by (auto simp: loaded_iff_mods)
    with rest show ?thesis
      by (cases r1) (auto simp: throw_def dest: move_to_end_mods)
  qed
next
  case (6 n F q st sts s)
  from "6.prems" have "obind (exec_stmt n F q st s) (\<lambda>_. exec_body n F q sts) = Some (r, s')"
    by simp
  then show ?case
    by (rule obind_mods) (fact "6.IH"(1), fact "6.IH"(2))
next
  case (7 n F q m s)
  from "7.prems" show ?case
    apply (cases "m = []")
     apply (simp add: throw_def)
    apply (simp del: gcd_import.simps)
    apply (erule obind_mods, erule "7.IH"(1), assumption)
    apply (erule obind_mods, erule "7.IH"(2), assumption, assumption)
    apply (simp add: ok_def)
    done
next
  case (8 n F q lvl m xs s)
  from "8.prems" show ?case
  proof (cases "resolve_name (package_of s q) lvl m")
    case (Inr t)
    from "8.prems" Inr show ?thesis
      apply (simp del: gcd_import.simps handle_fromlist.simps)
      apply (erule obind_mods, erule "8.IH"(1), assumption)
      apply (erule obind_mods)
       apply (erule cond_ok_mods, erule "8.IH"(2), assumption+)
      apply (auto dest: bind_from_mods)
      done
  qed (simp add: throw_def)
next
  case (9 n F q lvl m s)
  from "9.prems" show ?case
  proof (cases "resolve_name (package_of s q) lvl m")
    case (Inr t)
    from "9.prems" Inr show ?thesis
      apply (simp del: gcd_import.simps handle_fromlist.simps)
      apply (erule obind_mods, erule "9.IH"(1), assumption)
      apply (erule obind_mods)
       apply (erule cond_ok_mods)
       apply (auto simp: ok_def throw_def split: option.splits dest: "9.IH"(2) import_all_from_mods
          simp del: handle_fromlist.simps)
      done
  qed (simp add: throw_def)
next
  case (14 n F t x xs s)
  define c where "c = (if x = ''*'' \<or> mod_attr s t x \<noteq> None then ok () s
    else ocatch (gcd_import n F (t @ [x]) s)
      (\<lambda>e s'. if e = ModuleNotFoundError (t @ [x]) then ok () s' else throw e s'))"
  have eq: "handle_fromlist n F t (VStr x # xs) s = obind c (\<lambda>_. handle_fromlist n F t xs)"
    by (simp add: c_def del: gcd_import.simps)
  from "14.prems" have "obind c (\<lambda>_. handle_fromlist n F t xs) = Some (r, s')"
    by (simp only: eq)
  then show ?case
  proof (rule obind_mods)
    fix r1 s1
    assume c: "c = Some (r1, s1)"
    show "mods s \<subseteq> mods s1"
    proof (cases "x = ''*'' \<or> mod_attr s t x \<noteq> None")
      case True
      with c show ?thesis by (simp add: c_def ok_def)
    next
      case False
      with c obtain r0 s0 where "gcd_import n F (t @ [x]) s = Some (r0, s0)" and "s1 = s0"
        by (auto simp: c_def ocatch_eq_Some ok_def throw_def split: if_splits)
      with False show ?thesis using "14.IH"(1) by blast
    qed
  next
    fix a s1 r2 s2
    assume "c = Some (Inr a, s1)" and "handle_fromlist n F t xs s1 = Some (r2, s2)"
    then show "mods s1 \<subseteq> mods s2" using "14.IH"(2) unfolding c_def by blast
  qed
qed (simp_all add: ok_def throw_def split: sum.splits)

lemma fuel_le:
  assumes "n \<le> m"
  shows "le_out (gcd_import n F q s) (gcd_import m F q s)"
  using assms
proof (induction m)
  case (Suc m)
  show ?case
  proof (cases "n = Suc m")
    case False
    with Suc have "le_out (gcd_import n F q s) (gcd_import m F q s)" by simp
    then show ?thesis using fuel_Suc(1) [of m F q s] by (rule le_out_trans)
  qed simp
qed simp

section \<open>Results of a single import\<close>

lemma load_unlocked_Inr:
  "load_unlocked n F q s = Some (Inr a, s') \<Longrightarrow> loaded s' q"
  by (auto simp: obind_eq_Some ocatch_eq_Some throw_def split: option.splits
      dest: move_to_end_Inr simp del: exec_body.simps)

lemma load_unlocked_Inl:
  "load_unlocked n F q s = Some (Inl e, s') \<Longrightarrow> \<not> loaded s q \<Longrightarrow> \<not> loaded s' q"
  by (auto simp: obind_eq_Some ocatch_eq_Some throw_def loaded_iff_mods split: option.splits
      dest!: move_to_end_Inl simp del: exec_body.simps)

lemma find_and_load_unlocked_Inr:
  "find_and_load_unlocked n F q s = Some (Inr a, s') \<Longrightarrow> loaded s' q"
  by (auto simp: Let_def obind_eq_Some ok_def throw_def split: if_splits option.splits
      dest: load_unlocked_Inr simp del: gcd_import.simps load_unlocked.simps)

lemma gcd_import_Inr:
  "gcd_import n F q s = Some (Inr a, s') \<Longrightarrow> loaded s' q"
  by (cases n) (auto simp: ok_def throw_def split: if_splits dest: find_and_load_unlocked_Inr
      simp del: find_and_load_unlocked.simps)

section \<open>Properties of an import\<close>

text \<open>
  Fuel only bounds the nesting of imports: a result obtained with some fuel is
  obtained unchanged with any larger amount.
\<close>

lemma gcd_import_more_fuel:
  assumes "n \<le> m" and "gcd_import n F q s = Some r"
  shows "gcd_import m F q s = Some r"
  using le_out_SomeD [OF fuel_le [OF assms(1)] assms(2)] .


text \<open>
  An import, whether it succeeds or raises, never removes a module that was in
  \<open>sys.modules\<close> before it started: \<open>_load_unlocked\<close> only deletes the entry it
  created itself.
\<close>

lemma gcd_import_keeps_loaded:
  assumes "gcd_import n F q s = Some (r, s')" and "loaded s x"
  shows "loaded s' x"
  using import_mods_mono(1) [OF assms(1)] assms(2) by (auto simp: loaded_iff_mods)


text \<open>
  Importing is idempotent: once an import has succeeded, importing the same name
  again is answered from \<open>sys.modules\<close>, with no effect and no fuel beyond one call.
\<close>

lemma gcd_import_idempotent:
  assumes "gcd_import n F q s = Some (Inr (), s')"
  shows "gcd_import (Suc m) F q s' = ok () s'"
proof -
  from assms have "q \<noteq> []" by (cases n) (auto simp: throw_def)
  with gcd_import_Inr [OF assms] show ?thesis by simp
qed


text \<open>
  A top-level module whose import raises is not left in \<open>sys.modules\<close>: the entry
  registered before its body ran is deleted again, so a later import retries it.
\<close>

lemma gcd_import_rollback:
  assumes "gcd_import n F [x] s = Some (Inl e, s')" and "\<not> loaded s [x]"
  shows "\<not> loaded s' [x]"
proof (cases n)
  case (Suc k)
  with assms have "load_unlocked k F [x] s = Some (Inl e, s')"
    by (simp del: load_unlocked.simps)
  then show ?thesis using load_unlocked_Inl assms(2) by blast
qed (use assms in simp)


end
