(* ===== verification/Submodules.thy ===== *)
theory Submodules
  imports Importlib
begin

text \<open>
  Generic facts about importing the submodules of a package: a submodule whose body
  only defines functions and assigns literal values (a \<open>simple_body\<close>) always loads,
  becomes an attribute of its package and touches no other module; a submodule with
  no source file raises \<open>ModuleNotFoundError\<close> for exactly its name; and from these,
  what \<open>_handle_fromlist\<close> and \<open>import_all_from\<close> do with a list of names.
\<close>

section \<open>Simple module bodies\<close>

fun closed_expr :: "expr \<Rightarrow> bool" where
  "closed_expr ENone = True"
| "closed_expr (EStr t) = True"
| "closed_expr (EName x) = False"
| "closed_expr (EList es) = list_all closed_expr es"

fun simple_stmt :: "stmt \<Rightarrow> bool" where
  "simple_stmt (Def f) = True"
| "simple_stmt (Assign x e) = closed_expr e"
| "simple_stmt _ = False"

definition simple_body :: "stmt list \<Rightarrow> bool" where
  "simple_body b \<longleftrightarrow> list_all simple_stmt b"

text \<open>
  The namespace a simple body builds, as a direct definition: each \<open>def\<close> binds a
  function, each assignment the value of its constant expression, later bindings
  overriding earlier ones.
\<close>

fun body_attrs :: "qname \<Rightarrow> stmt list \<Rightarrow> (ident \<rightharpoonup> pyval) \<Rightarrow> (ident \<rightharpoonup> pyval)" where
  "body_attrs q [] m = m"
| "body_attrs q (Def f # b) m = body_attrs q b (m(f \<mapsto> VFunc q f))"
| "body_attrs q (Assign x e # b) m =
     body_attrs q b (case eval_expr [] e of Inr v \<Rightarrow> m(x \<mapsto> v) | Inl _ \<Rightarrow> m)"
| "body_attrs q (_ # b) m = body_attrs q b m"

lemma eval_closed_ns:
  "closed_expr e \<Longrightarrow> eval_expr ns e = eval_expr ns' e"
  "list_all closed_expr es \<Longrightarrow> eval_exprs ns es = eval_exprs ns' es"
  by (induction ns e and ns es rule: eval_expr_eval_exprs.induct) (auto split: sum.split)

lemma eval_closed:
  "closed_expr e \<Longrightarrow> \<exists>v. eval_expr ns e = Inr v"
  "list_all closed_expr es \<Longrightarrow> \<exists>vs. eval_exprs ns es = Inr vs"
  by (induction ns e and ns es rule: eval_expr_eval_exprs.induct) auto

lemma exec_simple_body:
  assumes "simple_body b" and "loaded s q"
  shows "\<exists>s'. exec_body n F q b s = ok () s' \<and> mods s' = mods s \<and>
           (\<forall>q'. q' \<noteq> q \<longrightarrow> get_module s' q' = get_module s q') \<and>
           module_is_package s' q = module_is_package s q \<and> module_order s' = module_order s \<and>
           mod_attr s' q = body_attrs q b (mod_attr s q)"
  using assms
proof (induction b arbitrary: s)
  case Nil
  then show ?case by simp
next
  case (Cons st b)
  from Cons.prems(1) have st: "simple_stmt st" and b: "simple_body b"
    by (simp_all add: simple_body_def)
  obtain s1 where s1: "exec_stmt n F q st s = ok () s1" and
    m1: "mods s1 = mods s" and g1: "\<forall>q'. q' \<noteq> q \<longrightarrow> get_module s1 q' = get_module s q'"
    and p1: "module_is_package s1 q = module_is_package s q"
    and o1: "module_order s1 = module_order s"
    and a1: "body_attrs q (st # b) (mod_attr s q) = body_attrs q b (mod_attr s1 q)"
  proof (cases st)
    case (Assign x e)
    with st obtain v where v: "eval_expr (module_ns s q) e = Inr v"
      using eval_closed(1) by fastforce
    moreover from Assign st v have "eval_expr [] e = Inr v"
      using eval_closed_ns(1) [of e "module_ns s q" "[]"] by simp
    ultimately show ?thesis using that Assign Cons.prems(2)
      by (simp add: get_module_set_attr mod_attr_set_attr_same)
  next
    case (Def f)
    then show ?thesis using that Cons.prems(2) by (simp add: get_module_set_attr mod_attr_set_attr_same)
  qed (use st in simp_all)
  from Cons.prems(2) m1 have "loaded s1 q" by (simp add: loaded_iff_mods)
  from Cons.IH [OF b this] obtain s2 where "exec_body n F q b s1 = ok () s2" "mods s2 = mods s1"
    "\<forall>q'. q' \<noteq> q \<longrightarrow> get_module s2 q' = get_module s1 q'"
    "module_is_package s2 q = module_is_package s1 q" "module_order s2 = module_order s1"
    "mod_attr s2 q = body_attrs q b (mod_attr s1 q)" by blast
  with s1 m1 g1 p1 o1 a1 show ?case by (simp del: exec_stmt.simps body_attrs.simps)
qed

section \<open>Importing one submodule of a loaded package\<close>

text \<open>
  The first steps of \<open>_find_and_load_unlocked\<close> for a submodule \<open>t.x\<close> of a loaded
  package \<open>t\<close>: no parent import is needed and \<open>_load_unlocked\<close> is reached.
\<close>

lemma gcd_import_submodule_unfold:
  assumes "t \<noteq> []" and "module_is_package s t" and "\<not> loaded s (t @ [x])"
  shows "gcd_import (Suc k) F (t @ [x]) s =
           obind (load_unlocked k F (t @ [x]) s) (\<lambda>_ s2.
             if loaded s2 t then ok () (set_attr t x (VModule (t @ [x])) s2)
             else throw (KeyError t) s2)"
proof -
  from assms(2) obtain pm where pm: "get_module s t = Some pm" "is_package pm"
    by (auto simp: module_is_package_def split: option.splits)
  then have "loaded s t" by (simp add: loaded_def)
  with assms pm show ?thesis by (simp add: Let_def cong: if_cong del: load_unlocked.simps)
qed

lemma import_simple_submodule:
  assumes "t \<noteq> []" and "module_is_package s t" and "\<not> loaded s (t @ [x])"
    and "F (t @ [x]) = Some (False, b)" and "simple_body b"
  shows "\<exists>s'. gcd_import (Suc k) F (t @ [x]) s = ok () s' \<and>
           mods s' = insert (t @ [x]) (mods s) \<and>
           mod_attr s' t = (mod_attr s t)(x \<mapsto> VModule (t @ [x])) \<and>
           module_is_package s' t \<and> \<not> module_is_package s' (t @ [x]) \<and>
           (\<forall>q. q \<noteq> t \<longrightarrow> q \<noteq> t @ [x] \<longrightarrow> get_module s' q = get_module s q) \<and>
           module_order s' = module_order s @ [t @ [x]] \<and>
           mod_attr s' (t @ [x]) = body_attrs (t @ [x]) b Map.empty"
proof -
  let ?q = "t @ [x]"
  let ?s0 = "add_module ?q False s"
  have "loaded ?s0 ?q" by simp
  from exec_simple_body [OF assms(5) this] obtain s1 where
    e: "exec_body k F ?q b ?s0 = ok () s1" and m1: "mods s1 = mods ?s0" and
    g1: "\<forall>q'. q' \<noteq> ?q \<longrightarrow> get_module s1 q' = get_module ?s0 q'" and
    p1: "module_is_package s1 ?q = module_is_package ?s0 ?q" and
    o1: "module_order s1 = module_order ?s0" and
    a1: "mod_attr s1 ?q = body_attrs ?q b (mod_attr ?s0 ?q)" by blast
  from m1 have "loaded s1 ?q" by (simp add: loaded_iff_mods)
  from move_to_end_loaded [OF this] obtain s2 where
    mv: "move_to_end ?q s1 = ok () s2" and g2: "get_module s2 = get_module s1" and
    m2: "mods s2 = mods s1" by blast
  have lu: "load_unlocked k F ?q s = ok () s2"
    using assms(4) e mv by simp
  have gt: "get_module s2 t = get_module s t"
    using g1 g2 by (simp add: get_module_add_module)
  with assms(2) have lt: "loaded s2 t"
    by (auto simp: loaded_def module_is_package_def split: option.splits)
  let ?s' = "set_attr t x (VModule ?q) s2"
  have "gcd_import (Suc k) F ?q s = ok () ?s'"
    using gcd_import_submodule_unfold [OF assms(1-3)] lu lt by simp
  moreover have "mods ?s' = insert ?q (mods s)" using m2 m1 by simp
  moreover have "mod_attr ?s' t = (mod_attr s t)(x \<mapsto> VModule ?q)"
  proof -
    have "mod_attr s2 t = mod_attr s t" using gt by (simp add: mod_attr_def fun_eq_iff)
    with lt show ?thesis by (auto simp: fun_eq_iff)
  qed
  moreover have "module_is_package ?s' t"
    using gt assms(2) by (simp add: module_is_package_def [of s2] module_is_package_def [of s])
  moreover have "\<not> module_is_package ?s' ?q"
    using p1 g2 by (simp add: module_is_package_def [of s2] module_is_package_def [of s1])
  moreover have "\<forall>q. q \<noteq> t \<longrightarrow> q \<noteq> ?q \<longrightarrow> get_module ?s' q = get_module s q"
    using g1 g2 by (simp add: get_module_set_attr get_module_add_module)
  moreover have "module_order ?s' = module_order s @ [?q]"
  proof -
    have "module_order s1 = module_order s @ [?q]"
      using o1 module_order_add_module [OF assms(3)] by simp
    moreover have "?q \<notin> set (module_order s)" using assms(3) by (simp add: loaded_iff_mods)
    ultimately show ?thesis using move_to_end_order [of ?q s1 "()" s2] mv
      by (auto simp: ok_def intro!: filter_True)
  qed
  moreover have "mod_attr ?s' ?q = body_attrs ?q b Map.empty"
  proof -
    have e0: "mod_attr ?s0 ?q = Map.empty" by (simp add: fun_eq_iff)
    have e2: "mod_attr s2 = mod_attr s1" using g2 by (rule mod_attr_cong_get_module)
    have "mod_attr ?s' ?q = mod_attr s2 ?q" by (simp add: fun_eq_iff)
    with a1 e0 e2 show ?thesis by simp
  qed
  ultimately show ?thesis by blast
qed

lemma import_missing_submodule:
  assumes "t \<noteq> []" and "module_is_package s t" and "\<not> loaded s (t @ [x])"
    and "F (t @ [x]) = None"
  shows "gcd_import (Suc k) F (t @ [x]) s = throw (ModuleNotFoundError (t @ [x])) s"
  using gcd_import_submodule_unfold [OF assms(1-3)] assms(4) by simp

section \<open>From-lists over simple or missing submodules\<close>

text \<open>
  A name of a from-list that the package either already has as an attribute, or whose
  submodule is not loaded and has no source file or a plain simple one.
\<close>

definition sub_ok :: "finder \<Rightarrow> interp \<Rightarrow> qname \<Rightarrow> ident \<Rightarrow> bool" where
  "sub_ok F s t x \<longleftrightarrow> x \<noteq> ''*'' \<and>
     (mod_attr s t x \<noteq> None \<or>
      (\<not> loaded s (t @ [x]) \<and>
       (case F (t @ [x]) of None \<Rightarrow> True | Some (pkg, b) \<Rightarrow> \<not> pkg \<and> simple_body b)))"

text \<open>The attribute the package has for the name once \<open>_handle_fromlist\<close> has run.\<close>

definition fromlist_attr :: "finder \<Rightarrow> interp \<Rightarrow> qname \<Rightarrow> ident \<Rightarrow> pyval option" where
  "fromlist_attr F s t x = (case mod_attr s t x of
      Some v \<Rightarrow> Some v
    | None \<Rightarrow> (case F (t @ [x]) of None \<Rightarrow> None | Some _ \<Rightarrow> Some (VModule (t @ [x]))))"

lemma handle_fromlist_step:
  assumes "t \<noteq> []" and "module_is_package s t" and "sub_ok F s t x"
  shows "\<exists>s1. handle_fromlist (Suc k) F t (VStr x # vs) s = handle_fromlist (Suc k) F t vs s1 \<and>
           module_is_package s1 t \<and>
           mod_attr s1 t = (mod_attr s t)(x := fromlist_attr F s t x) \<and>
           (\<forall>q. q \<noteq> t \<longrightarrow> q \<noteq> t @ [x] \<longrightarrow> get_module s1 q = get_module s q) \<and>
           (loaded s1 (t @ [x]) \<longleftrightarrow> loaded s (t @ [x]) \<or> fromlist_attr F s t x \<noteq> mod_attr s t x)"
proof (cases "mod_attr s t x")
  case (Some v)
  with assms(3) show ?thesis
    by (auto simp: sub_ok_def fromlist_attr_def fun_upd_idem assms(2) simp del: gcd_import.simps)
next
  case None
  with assms(3) have star: "x \<noteq> ''*''" and nl: "\<not> loaded s (t @ [x])"
    by (auto simp: sub_ok_def)
  show ?thesis
  proof (cases "F (t @ [x])")
    case Fn: None
    have "gcd_import (Suc k) F (t @ [x]) s = throw (ModuleNotFoundError (t @ [x])) s"
      using import_missing_submodule [where F = F and t = t and x = x and s = s] assms(1,2) nl Fn
      by blast
    with None star Fn show ?thesis
      by (auto simp: fromlist_attr_def fun_upd_idem assms(2) simp del: gcd_import.simps)
  next
    case (Some fb)
    with None assms(3) obtain b where fb: "F (t @ [x]) = Some (False, b)" and sb: "simple_body b"
      by (auto simp: sub_ok_def split: prod.splits)
    from import_simple_submodule [where t = t and x = x and s = s and F = F and k = k, OF assms(1,2) nl fb sb]
    obtain s1 where
      g: "gcd_import (Suc k) F (t @ [x]) s = ok () s1" and
      m: "mods s1 = insert (t @ [x]) (mods s)" and
      a: "mod_attr s1 t = (mod_attr s t)(x \<mapsto> VModule (t @ [x]))" and
      p: "module_is_package s1 t" and
      f: "\<forall>q. q \<noteq> t \<longrightarrow> q \<noteq> t @ [x] \<longrightarrow> get_module s1 q = get_module s q" by blast
    from None star g have "handle_fromlist (Suc k) F t (VStr x # vs) s = handle_fromlist (Suc k) F t vs s1"
      by (simp del: gcd_import.simps)
    with m a p f None fb show ?thesis by (auto simp: fromlist_attr_def loaded_iff_mods)
  qed
qed

lemma handle_fromlist_names:
  assumes "t \<noteq> []" and "module_is_package s t" and "distinct xs" and "\<forall>x\<in>set xs. sub_ok F s t x"
  shows "\<exists>s'. handle_fromlist (Suc k) F t (map VStr xs) s = ok () s' \<and> module_is_package s' t \<and>
           (\<forall>y. mod_attr s' t y = (if y \<in> set xs then fromlist_attr F s t y else mod_attr s t y)) \<and>
           (\<forall>q. q \<noteq> t \<longrightarrow> (\<forall>x\<in>set xs. q \<noteq> t @ [x]) \<longrightarrow> get_module s' q = get_module s q) \<and>
           (\<forall>x\<in>set xs. loaded s' (t @ [x]) \<longleftrightarrow>
              loaded s (t @ [x]) \<or> fromlist_attr F s t x \<noteq> mod_attr s t x)"
  using assms(2-4)
proof (induction xs arbitrary: s)
  case Nil
  then show ?case by simp
next
  case (Cons x xs)
  from handle_fromlist_step [where x = x and k = k and vs = "map VStr xs" and F = F,
      OF assms(1) Cons.prems(1)] Cons.prems(3)
  obtain s1 where
    h: "handle_fromlist (Suc k) F t (VStr x # map VStr xs) s = handle_fromlist (Suc k) F t (map VStr xs) s1" and
    p1: "module_is_package s1 t" and
    a1: "mod_attr s1 t = (mod_attr s t)(x := fromlist_attr F s t x)" and
    f1: "\<forall>q. q \<noteq> t \<longrightarrow> q \<noteq> t @ [x] \<longrightarrow> get_module s1 q = get_module s q" and
    l1: "loaded s1 (t @ [x]) \<longleftrightarrow> loaded s (t @ [x]) \<or> fromlist_attr F s t x \<noteq> mod_attr s t x"
    by auto
  from Cons.prems(2) have xn: "x \<notin> set xs" and d: "distinct xs" by simp_all
  have same_attr: "mod_attr s1 t y = mod_attr s t y" if "y \<in> set xs" for y
    using that xn a1 by auto
  have same_loaded: "loaded s1 (t @ [y]) = loaded s (t @ [y])" if "y \<in> set xs" for y
  proof -
    from that xn have "t @ [y] \<noteq> t" "t @ [y] \<noteq> t @ [x]" by auto
    with f1 show ?thesis by (simp add: loaded_def)
  qed
  have "\<forall>y\<in>set xs. sub_ok F s1 t y"
    using Cons.prems(3) same_attr same_loaded by (auto simp: sub_ok_def)
  from Cons.IH [OF p1 d this] obtain s' where
    h2: "handle_fromlist (Suc k) F t (map VStr xs) s1 = ok () s'" and p2: "module_is_package s' t" and
    a2: "\<forall>y. mod_attr s' t y = (if y \<in> set xs then fromlist_attr F s1 t y else mod_attr s1 t y)" and
    f2: "\<forall>q. q \<noteq> t \<longrightarrow> (\<forall>x\<in>set xs. q \<noteq> t @ [x]) \<longrightarrow> get_module s' q = get_module s1 q" and
    l2: "\<forall>y\<in>set xs. loaded s' (t @ [y]) \<longleftrightarrow>
      loaded s1 (t @ [y]) \<or> fromlist_attr F s1 t y \<noteq> mod_attr s1 t y"
    by blast
  have fa: "fromlist_attr F s1 t y = fromlist_attr F s t y" if "y \<in> set xs" for y
    using same_attr [OF that] by (simp add: fromlist_attr_def)
  have "\<forall>y. mod_attr s' t y = (if y \<in> set (x # xs) then fromlist_attr F s t y else mod_attr s t y)"
    using a2 a1 fa xn by auto
  moreover have "\<forall>q. q \<noteq> t \<longrightarrow> (\<forall>y\<in>set (x # xs). q \<noteq> t @ [y]) \<longrightarrow> get_module s' q = get_module s q"
    using f1 f2 by simp
  moreover have "get_module s' (t @ [x]) = get_module s1 (t @ [x])"
    using f2 xn by auto
  then have "loaded s' (t @ [x]) = loaded s1 (t @ [x])" by (simp add: loaded_def)
  moreover have "\<forall>y\<in>set xs. loaded s' (t @ [y]) \<longleftrightarrow>
      loaded s (t @ [y]) \<or> fromlist_attr F s t y \<noteq> mod_attr s t y"
    using l2 same_loaded fa same_attr by simp
  ultimately show ?case using h h2 p2 l1 by auto
qed

text \<open>
  \<open>import_all_from\<close> with an \<open>__all__\<close> list of names: each is bound in the importing
  module to the package's attribute, until the first name the package lacks, which
  raises \<open>AttributeError\<close>.
\<close>

lemma bind_names_present:
  assumes "c \<noteq> t" and "loaded s c" and "\<forall>x\<in>set xs. mod_attr s t x \<noteq> None"
  shows "\<exists>s'. bind_names False c t (map VStr xs) s = ok () s' \<and>
           (\<forall>y. mod_attr s' c y = (if y \<in> set xs then mod_attr s t y else mod_attr s c y)) \<and>
           (\<forall>q. q \<noteq> c \<longrightarrow> get_module s' q = get_module s q)"
  using assms(2,3)
proof (induction xs arbitrary: s)
  case (Cons x xs)
  then obtain v where v: "mod_attr s t x = Some v" by auto
  let ?s1 = "set_attr c x v s"
  have "\<forall>y\<in>set xs. mod_attr ?s1 t y \<noteq> None" using Cons.prems(2) assms(1) by simp
  from Cons.IH [OF _ this] Cons.prems(1) obtain s' where
    "bind_names False c t (map VStr xs) ?s1 = ok () s'"
    "\<forall>y. mod_attr s' c y = (if y \<in> set xs then mod_attr ?s1 t y else mod_attr ?s1 c y)"
    "\<forall>q. q \<noteq> c \<longrightarrow> get_module s' q = get_module ?s1 q"
    by auto
  with v assms(1) Cons.prems(1) show ?case
    by (auto simp: get_module_set_attr)
qed simp

lemma bind_names_missing:
  assumes "c \<noteq> t" and "loaded s c" and "\<forall>x\<in>set ys. mod_attr s t x \<noteq> None" and "mod_attr s t y = None"
  shows "\<exists>s'. bind_names False c t (map VStr (ys @ y # zs)) s = throw (AttributeError t y) s'"
  using assms(2-4)
proof (induction ys arbitrary: s)
  case Nil
  then have "bind_names False c t (map VStr ([] @ y # zs)) s = throw (AttributeError t y) s"
    by simp
  then show ?case by blast
next
  case (Cons x ys)
  then obtain v where v: "mod_attr s t x = Some v" by auto
  have "\<forall>y\<in>set ys. mod_attr (set_attr c x v s) t y \<noteq> None" using Cons.prems(2) assms(1) by simp
  moreover have "mod_attr (set_attr c x v s) t y = None" using Cons.prems(3) assms(1) by simp
  ultimately show ?case using Cons.IH Cons.prems(1) v by simp
qed

section \<open>from package import *\<close>

lemma import_star_unfold:
  assumes "t \<noteq> []" and "module_is_package s t"
    and "mod_attr s t ''__all__'' = Some (VList (map VStr xs))"
  shows "exec_stmt (Suc k) F c (ImportStar 0 t) s =
           obind (handle_fromlist (Suc k) F t (map VStr xs) s) (\<lambda>_. import_all_from c t)"
proof -
  from assms(2) have "loaded s t"
    by (auto simp: module_is_package_def loaded_def split: option.splits)
  with assms show ?thesis by (simp add: resolve_name_def del: handle_fromlist.simps)
qed

text \<open>The state after the from-list loop, where \<open>import_all_from\<close> starts.\<close>

text \<open>
  A wildcard import whose module is not yet loaded first imports it; the rest of the
  statement then runs as if the module had been loaded before.
\<close>

lemma import_star_after_import:
  assumes "t \<noteq> []" and "gcd_import (Suc k) F t s = Some (Inr (), s1)"
  shows "exec_stmt (Suc k) F c (ImportStar 0 t) s = exec_stmt (Suc k) F c (ImportStar 0 t) s1"
proof -
  have "gcd_import (Suc k) F t s1 = ok () s1" using gcd_import_Inr [OF assms(2)] assms(1) by simp
  with assms show ?thesis
    by (simp add: resolve_name_def ok_def del: gcd_import.simps handle_fromlist.simps)
qed

lemma import_star_fromlist:
  assumes "t \<noteq> []" and "module_is_package s t" and "loaded s c" and "c \<noteq> t"
    and "mod_attr s t ''__all__'' = Some (VList (map VStr xs))" and "''__all__'' \<notin> set xs"
    and "distinct xs" and "\<forall>x\<in>set xs. sub_ok F s t x" and "\<forall>x\<in>set xs. c \<noteq> t @ [x]"
  obtains s2 where
    "exec_stmt (Suc k) F c (ImportStar 0 t) s = bind_names False c t (map VStr xs) s2"
    "loaded s2 c" "mod_attr s2 c = mod_attr s c"
    "\<forall>y. mod_attr s2 t y = (if y \<in> set xs then fromlist_attr F s t y else mod_attr s t y)"
proof -
  from handle_fromlist_names [OF assms(1,2,7,8), of k] obtain s2 where
    h: "handle_fromlist (Suc k) F t (map VStr xs) s = ok () s2" and
    a: "\<forall>y. mod_attr s2 t y = (if y \<in> set xs then fromlist_attr F s t y else mod_attr s t y)" and
    f: "\<forall>q. q \<noteq> t \<longrightarrow> (\<forall>x\<in>set xs. q \<noteq> t @ [x]) \<longrightarrow> get_module s2 q = get_module s q"
    by blast
  from f assms(4,9) have gc: "get_module s2 c = get_module s c" by blast
  then have "loaded s2 c" "mod_attr s2 c = mod_attr s c"
    using assms(3) by (simp_all add: loaded_def mod_attr_def [abs_def])
  moreover have "mod_attr s2 t ''__all__'' = Some (VList (map VStr xs))"
    using a assms(5,6) by simp
  then have "import_all_from c t s2 = bind_names False c t (map VStr xs) s2"
    by (simp add: import_all_from_def comp_def)
  with import_star_unfold [OF assms(1,2,5), of k F c] h
  have "exec_stmt (Suc k) F c (ImportStar 0 t) s = bind_names False c t (map VStr xs) s2"
    by simp
  ultimately show ?thesis using that a by blast
qed

lemma import_star_ok:
  assumes "t \<noteq> []" and "module_is_package s t" and "loaded s c" and "c \<noteq> t"
    and "mod_attr s t ''__all__'' = Some (VList (map VStr xs))" and "''__all__'' \<notin> set xs"
    and "distinct xs" and "\<forall>x\<in>set xs. sub_ok F s t x" and "\<forall>x\<in>set xs. c \<noteq> t @ [x]"
    and "\<forall>x\<in>set xs. fromlist_attr F s t x \<noteq> None"
  shows "\<exists>s'. exec_stmt (Suc k) F c (ImportStar 0 t) s = ok () s' \<and>
           (\<forall>y. mod_attr s' c y = (if y \<in> set xs then fromlist_attr F s t y else mod_attr s c y))"
proof -
  obtain s2 where e: "exec_stmt (Suc k) F c (ImportStar 0 t) s = bind_names False c t (map VStr xs) s2"
    and l: "loaded s2 c" and ac: "mod_attr s2 c = mod_attr s c"
    and at: "\<forall>y. mod_attr s2 t y = (if y \<in> set xs then fromlist_attr F s t y else mod_attr s t y)"
    by (rule import_star_fromlist [OF assms(1-9), of k]) blast
  have "\<forall>x\<in>set xs. mod_attr s2 t x \<noteq> None" using at assms(10) by simp
  from bind_names_present [OF assms(4) l this] obtain s' where
    "bind_names False c t (map VStr xs) s2 = ok () s'"
    "\<forall>y. mod_attr s' c y = (if y \<in> set xs then mod_attr s2 t y else mod_attr s2 c y)" by blast
  with e ac at show ?thesis by auto
qed

lemma import_star_missing:
  assumes "t \<noteq> []" and "module_is_package s t" and "loaded s c" and "c \<noteq> t"
    and "mod_attr s t ''__all__'' = Some (VList (map VStr (ys @ y # zs)))"
    and "''__all__'' \<notin> set (ys @ y # zs)"
    and "distinct (ys @ y # zs)" and "\<forall>x\<in>set (ys @ y # zs). sub_ok F s t x"
    and "\<forall>x\<in>set (ys @ y # zs). c \<noteq> t @ [x]"
    and "\<forall>x\<in>set ys. fromlist_attr F s t x \<noteq> None" and "fromlist_attr F s t y = None"
  shows "\<exists>s'. exec_stmt (Suc k) F c (ImportStar 0 t) s = throw (AttributeError t y) s'"
proof -
  obtain s2 where e: "exec_stmt (Suc k) F c (ImportStar 0 t) s =
      bind_names False c t (map VStr (ys @ y # zs)) s2"
    and l: "loaded s2 c"
    and at: "\<forall>u. mod_attr s2 t u = (if u \<in> set (ys @ y # zs) then fromlist_attr F s t u else mod_attr s t u)"
    by (rule import_star_fromlist [OF assms(1-9), of k]) blast
  have "\<forall>x\<in>set ys. mod_attr s2 t x \<noteq> None" using at assms(10) by simp
  moreover have "mod_attr s2 t y = None" using at assms(11) by simp
  ultimately show ?thesis using bind_names_missing [OF assms(4) l] e by simp
qed

end
