(* ===== verification/SwiftBuildSupport.thy ===== *)
theory SwiftBuildSupport
  imports Submodules
begin

text \<open>
  The package initializer \<open>utils/swift_build_support/swift_build_support/__init__.py\<close>.
  Its body is two statements: \<open>from .which import which\<close> (line 18) and the assignment
  of \<open>__all__\<close> (lines 20 to 30). Its sibling modules (\<open>cmake.py\<close>, \<open>which.py\<close>, ...)
  are not part of the sources modelled here; the theorems hold for any file system
  (\<open>finder\<close>) that holds this initializer, and say what they require of the siblings.
\<close>

section \<open>The initializer\<close>

text \<open>The package's name, given by the file's path \<open>swift_build_support/__init__.py\<close>
  (line 1): the directory the initializer makes importable.\<close>

definition swift_build_support :: qname where
  "swift_build_support = [''swift_build_support'']"

text \<open>The module named by the relative import \<open>.which\<close> of line 18.\<close>

definition which_module :: qname where
  "which_module = swift_build_support @ [''which'']"

text \<open>The list of lines 20 to 30.\<close>

definition swift_all :: "string list" where
  "swift_all = [''cmake'', ''debug'', ''diagnostics'', ''migration'', ''tar'', ''targets'',
                ''toolchain'', ''which'', ''xcrun'']"

text \<open>The module body, statement by statement.\<close>

definition init_body :: "stmt list" where
  "init_body =
     [ImportFrom 1 [''which''] [''which''],
      Assign ''__all__'' (EList (map EStr swift_all))]"

section \<open>An example file system\<close>

text \<open>
  A file system on which the theorems are exercised: the package with this initializer,
  \<open>which.py\<close> with a given body, every other sibling named in \<open>__all__\<close> with a
  one-line body unless it is listed as absent, and a client module \<open>client.py\<close> whose
  body is \<open>from swift_build_support import *\<close>. It is a test fixture, not a model of
  the siblings' real contents.
\<close>

definition client :: qname where
  "client = [''client'']"

definition example_fs :: "stmt list \<Rightarrow> ident list \<Rightarrow> finder" where
  "example_fs which_body absent q =
     (if q = swift_build_support then Some (True, init_body)
      else if q = which_module then Some (False, which_body)
      else if q = client then Some (False, [ImportStar 0 swift_build_support])
      else if butlast q = swift_build_support \<and> q \<noteq> [] \<and> last q \<in> set swift_all
              \<and> last q \<notin> set absent
      then Some (False, [Assign ''__doc__'' ENone])
      else None)"

definition empty_interp :: interp where
  "empty_interp = \<lparr>sys_modules = []\<rparr>"

text \<open>The definitions a concrete run on the example file system unfolds.\<close>

lemmas example_simps = example_fs_def empty_interp_def add_module_def get_module_def loaded_def
  swift_build_support_def which_module_def client_def move_to_end_def set_attr_def mod_attr_def
  module_is_package_def ok_def throw_def swift_all_def simple_body_def numeral_2_eq_2
  init_body_def resolve_name_def package_of_def import_from_def drop_module_def module_ns_def

section \<open>Unfolding the import of the package\<close>

lemma swift_names [simp]:
  "swift_build_support \<noteq> []" "butlast swift_build_support = []"
  "which_module \<noteq> []" "which_module \<noteq> swift_build_support"
  by (simp_all add: swift_build_support_def which_module_def)

lemma swift_all_facts [simp]:
  "distinct swift_all" "''__all__'' \<notin> set swift_all" "''*'' \<notin> set swift_all"
  "''which'' \<in> set swift_all"
  by (simp_all add: swift_all_def)

lemma resolve_which:
  "resolve_name swift_build_support (Suc 0) [''which''] = Inr which_module"
  by (simp add: resolve_name_def which_module_def)

lemma exec_assign_all:
  "exec_body n F q [Assign ''__all__'' (EList (map EStr swift_all))] =
     (\<lambda>s. ok () (set_attr q ''__all__'' (VList (map VStr swift_all)) s))"
  by (rule ext) simp

text \<open>What running the body does, in a state where the package is a loaded package.\<close>

lemma init_body_exec:
  assumes "module_is_package t swift_build_support"
  shows "exec_body n F swift_build_support init_body t =
    obind (gcd_import n F which_module t) (\<lambda>_ s1.
      obind (if module_is_package s1 which_module
             then handle_fromlist n F which_module [VStr ''which''] s1 else ok () s1) (\<lambda>_ s2.
        obind (bind_from swift_build_support which_module [''which''] s2) (\<lambda>_ s3.
          ok () (set_attr swift_build_support ''__all__'' (VList (map VStr swift_all)) s3))))"
  using assms
  by (simp add: init_body_def package_of_def resolve_which exec_assign_all obind_assoc cong: if_cong
      del: gcd_import.simps handle_fromlist.simps bind_from.simps)

lemma package_import_unfold:
  assumes "F swift_build_support = Some (True, init_body)" and "\<not> loaded s swift_build_support"
  shows "gcd_import (Suc k) F swift_build_support s =
    obind (ocatch (exec_body k F swift_build_support init_body (add_module swift_build_support True s))
                  (\<lambda>e s'. throw e (drop_module swift_build_support s')))
          (\<lambda>_. move_to_end swift_build_support)"
  using assms by (simp add: Let_def del: exec_body.simps)

text \<open>
  The initializer's run once \<open>.which\<close> has been imported: an exception of that import
  propagates; otherwise \<open>IMPORT_FROM\<close> reads \<open>which\<close> (raising \<open>ImportError\<close> if it
  is missing) and the two stores follow. The side condition excludes a \<open>which\<close>
  package lacking the attribute, whose from-list would import \<open>.which.which\<close>.
\<close>

lemma init_body_result:
  assumes "gcd_import k F which_module (add_module swift_build_support True s) = Some (r1, s1)"
    and "module_is_package s1 which_module \<longrightarrow> mod_attr s1 which_module ''which'' \<noteq> None"
  shows "exec_body k F swift_build_support init_body (add_module swift_build_support True s) =
    (case r1 of
      Inl e \<Rightarrow> throw e s1
    | Inr _ \<Rightarrow> (case import_from s1 which_module ''which'' of
        Inl e \<Rightarrow> throw e s1
      | Inr v \<Rightarrow> ok () (set_attr swift_build_support ''__all__'' (VList (map VStr swift_all))
                         (set_attr swift_build_support ''which'' v s1))))"
proof -
  have hf: "(if module_is_package s1 which_module
      then handle_fromlist k F which_module [VStr ''which''] s1 else ok () s1) = ok () s1"
    using assms(2) by (auto simp del: gcd_import.simps)
  show ?thesis
    using init_body_exec [of "add_module swift_build_support True s" k F] assms(1) hf
    by (cases r1) (simp_all add: throw_def split: sum.split)
qed

lemma init_body_which_raises:
  assumes "gcd_import k F which_module (add_module swift_build_support True s) = Some (Inl e, s1)"
  shows "exec_body k F swift_build_support init_body (add_module swift_build_support True s) =
    throw e s1"
  using init_body_exec [of "add_module swift_build_support True s" k F] assms
  by (simp add: throw_def)

lemma package_loaded_after_which:
  assumes "gcd_import k F which_module (add_module swift_build_support True s) = Some (r1, s1)"
  shows "loaded s1 swift_build_support"
  using import_mods_mono(1) [OF assms] by (auto simp: loaded_iff_mods)

text \<open>
  The outcome of importing the package once \<open>.which\<close> has been imported
  successfully: \<open>IMPORT_FROM\<close> of \<open>which\<close> either raises, and the package is
  rolled back, or yields a value, which the package keeps with its \<open>__all__\<close>; in no
  case is a module loaded beyond those of the import of \<open>.which\<close>.
\<close>

lemma package_import_result:
  assumes "F swift_build_support = Some (True, init_body)"
    and "\<not> loaded s swift_build_support"
    and "gcd_import k F which_module (add_module swift_build_support True s) = Some (Inr (), s1)"
    and "module_is_package s1 which_module \<longrightarrow> mod_attr s1 which_module ''which'' \<noteq> None"
  shows "\<exists>r s2. gcd_import (Suc k) F swift_build_support s = Some (r, s2) \<and> mods s2 \<subseteq> mods s1 \<and>
    (case import_from s1 which_module ''which'' of
       Inl e \<Rightarrow> r = Inl e \<and> \<not> loaded s2 swift_build_support
     | Inr v \<Rightarrow> r = Inr () \<and> mod_attr s2 swift_build_support ''which'' = Some v \<and>
         mod_attr s2 swift_build_support ''__all__'' = Some (VList (map VStr swift_all)) \<and>
         mods s2 = mods s1)"
proof (cases "import_from s1 which_module ''which''")
  case (Inl e)
  then have "exec_body k F swift_build_support init_body (add_module swift_build_support True s) =
      throw e s1"
    using init_body_result [OF assms(3,4)] by simp
  with Inl show ?thesis
    using package_import_unfold [where F = F and s = s and k = k, OF assms(1,2)]
    by (auto simp: loaded_iff_mods throw_def)
next
  case (Inr v)
  let ?P = swift_build_support
  let ?s3 = "set_attr ?P ''__all__'' (VList (map VStr swift_all)) (set_attr ?P ''which'' v s1)"
  have ex: "exec_body k F ?P init_body (add_module ?P True s) = ok () ?s3"
    using init_body_result [OF assms(3,4)] Inr by simp
  have l1: "loaded s1 ?P" by (rule package_loaded_after_which [OF assms(3)])
  then have "loaded ?s3 ?P" by simp
  from move_to_end_loaded [OF this] obtain s2 where
    mv: "move_to_end ?P ?s3 = ok () s2" and g: "get_module s2 = get_module ?s3" and
    m: "mods s2 = mods ?s3" by blast
  have "gcd_import (Suc k) F ?P s = ok () s2"
    using package_import_unfold [where F = F and s = s and k = k, OF assms(1,2)] ex mv by simp
  moreover have "mod_attr s2 = mod_attr ?s3" using g by (rule mod_attr_cong_get_module)
  ultimately show ?thesis using l1 m Inr by (simp add: ok_def)
qed

text \<open>
  The condition on the package's state that the client's wildcard import needs: after the
  initializer, \<open>which\<close> is bound and every other listed name is neither an
  attribute nor a loaded submodule, and its file is missing or a plain simple module.
\<close>

lemma swift_sub_ok:
  assumes "mod_attr s swift_build_support ''which'' = Some v"
    and "\<forall>x\<in>set swift_all. x \<noteq> ''which'' \<longrightarrow> mod_attr s swift_build_support x = None \<and>
           \<not> loaded s (swift_build_support @ [x]) \<and>
           (case F (swift_build_support @ [x]) of None \<Rightarrow> True | Some (pkg, b) \<Rightarrow> \<not> pkg \<and> simple_body b)"
  shows "\<forall>x\<in>set swift_all. sub_ok F s swift_build_support x"
  using assms swift_all_facts(3) by (auto simp: sub_ok_def)

lemma swift_fromlist_attr:
  assumes "mod_attr s swift_build_support ''which'' = Some v"
    and "\<forall>x\<in>set swift_all. x \<noteq> ''which'' \<longrightarrow> mod_attr s swift_build_support x = None"
    and "x \<in> set swift_all"
  shows "fromlist_attr F s swift_build_support x =
    (if x = ''which'' then Some v
     else case F (swift_build_support @ [x]) of None \<Rightarrow> None
          | Some _ \<Rightarrow> Some (VModule (swift_build_support @ [x])))"
  using assms by (auto simp: fromlist_attr_def)

section \<open>Importing the package\<close>

text \<open>
  C1. Importing \<open>swift_build_support\<close> runs its initializer: once \<open>.which\<close> has
  been imported and defines \<open>which\<close>, the package succeeds, its attribute \<open>which\<close>
  is that value (not the submodule object the import bound there first), its
  \<open>__all__\<close> is the list of the nine names, and no module beyond those loaded while
  importing \<open>.which\<close> is loaded.
\<close>

theorem package_import_binds_which:
  assumes "F swift_build_support = Some (True, init_body)"
    and "\<not> loaded s swift_build_support"
    and "gcd_import k F which_module (add_module swift_build_support True s) = Some (Inr (), s1)"
    and "mod_attr s1 which_module ''which'' = Some v"
  shows "\<exists>s2. gcd_import (Suc k) F swift_build_support s = ok () s2 \<and>
           mod_attr s2 swift_build_support ''which'' = Some v \<and>
           mod_attr s2 swift_build_support ''__all__'' = Some (VList (map VStr swift_all)) \<and>
           mods s2 = mods s1"
proof -
  have "import_from s1 which_module ''which'' = Inr v" using assms(4) by (simp add: import_from_def)
  with package_import_result [OF assms(1-3)] assms(4) show ?thesis by (auto simp: ok_def)
qed

theorem package_import_binds_which_witness:
  "\<exists>s1 s2. example_fs [Def ''which''] [] swift_build_support = Some (True, init_body) \<and>
     \<not> loaded empty_interp swift_build_support \<and>
     gcd_import 1 (example_fs [Def ''which''] []) which_module (add_module swift_build_support True empty_interp)
       = Some (Inr (), s1) \<and>
     mod_attr s1 which_module ''which'' = Some (VFunc which_module ''which'') \<and>
     gcd_import 2 (example_fs [Def ''which''] []) swift_build_support empty_interp = ok () s2 \<and>
     mod_attr s2 swift_build_support ''which'' = Some (VFunc which_module ''which'') \<and>
     mod_attr s2 swift_build_support ''__all__'' = Some (VList (map VStr swift_all)) \<and>
     mods s2 = mods s1"
proof -
  have h1: "example_fs [Def ''which''] [] swift_build_support = Some (True, init_body)"
    by (simp add: example_fs_def)
  have h2: "\<not> loaded empty_interp swift_build_support"
    by (simp add: empty_interp_def loaded_def get_module_def)
  obtain s1 where h3: "gcd_import 1 (example_fs [Def ''which''] []) which_module
      (add_module swift_build_support True empty_interp) = Some (Inr (), s1)" and
    h4: "mod_attr s1 which_module ''which'' = Some (VFunc which_module ''which'')"
    by (auto simp: example_fs_def empty_interp_def add_module_def get_module_def loaded_def
        swift_build_support_def which_module_def client_def move_to_end_def set_attr_def
        mod_attr_def ok_def)
  from package_import_binds_which [OF h1 h2 h3 h4] h1 h2 h3 h4 show ?thesis
    by (simp add: numeral_2_eq_2)
qed

text \<open>
  C2. If importing \<open>.which\<close> raises, importing the package raises the same exception,
  and \<open>_load_unlocked\<close> removes the half-initialised package from \<open>sys.modules\<close>
  (what \<open>.which\<close> loaded meanwhile stays).
\<close>

theorem package_import_which_raises:
  assumes "F swift_build_support = Some (True, init_body)"
    and "\<not> loaded s swift_build_support"
    and "gcd_import k F which_module (add_module swift_build_support True s) = Some (Inl e, s1)"
  shows "gcd_import (Suc k) F swift_build_support s = throw e (drop_module swift_build_support s1) \<and>
         \<not> loaded (drop_module swift_build_support s1) swift_build_support"
  using package_import_unfold [where F = F and s = s and k = k, OF assms(1,2)]
    init_body_which_raises [OF assms(3)]
  by (simp add: loaded_iff_mods)

theorem package_import_which_raises_witness:
  "\<exists>s1. example_fs [Raise ''boom''] [] swift_build_support = Some (True, init_body) \<and>
     \<not> loaded empty_interp swift_build_support \<and>
     gcd_import 1 (example_fs [Raise ''boom''] []) which_module
       (add_module swift_build_support True empty_interp) = Some (Inl (Raised ''boom''), s1) \<and>
     gcd_import 2 (example_fs [Raise ''boom''] []) swift_build_support empty_interp
       = throw (Raised ''boom'') (drop_module swift_build_support s1) \<and>
     \<not> loaded (drop_module swift_build_support s1) swift_build_support"
proof -
  have h1: "example_fs [Raise ''boom''] [] swift_build_support = Some (True, init_body)"
    by (simp add: example_fs_def)
  have h2: "\<not> loaded empty_interp swift_build_support"
    by (simp add: empty_interp_def loaded_def get_module_def)
  obtain s1 where h3: "gcd_import 1 (example_fs [Raise ''boom''] []) which_module
      (add_module swift_build_support True empty_interp) = Some (Inl (Raised ''boom''), s1)"
    by (auto simp: example_fs_def empty_interp_def add_module_def get_module_def loaded_def
        swift_build_support_def which_module_def client_def throw_def)
  from package_import_which_raises [OF h1 h2 h3] h1 h2 h3 show ?thesis
    by (simp add: numeral_2_eq_2)
qed

text \<open>
  C3. If \<open>which.py\<close> is a plain module that loads but defines no \<open>which\<close>, line 18
  raises \<open>ImportError: cannot import name 'which'\<close> and the package is not left in
  \<open>sys.modules\<close>.
\<close>

theorem package_import_which_undefined:
  assumes "F swift_build_support = Some (True, init_body)"
    and "\<not> loaded s swift_build_support"
    and "gcd_import k F which_module (add_module swift_build_support True s) = Some (Inr (), s1)"
    and "\<not> module_is_package s1 which_module"
    and "mod_attr s1 which_module ''which'' = None"
    and "\<not> loaded s1 (which_module @ [''which''])"
  shows "gcd_import (Suc k) F swift_build_support s =
           throw (ImportErrorName ''which'' which_module) (drop_module swift_build_support s1) \<and>
         \<not> loaded (drop_module swift_build_support s1) swift_build_support"
proof -
  have "exec_body k F swift_build_support init_body (add_module swift_build_support True s) =
      throw (ImportErrorName ''which'' which_module) s1"
    using init_body_result [OF assms(3)] assms(4-6) by (simp add: import_from_def)
  then show ?thesis
    using package_import_unfold [where F = F and s = s and k = k, OF assms(1,2)]
    by (simp add: loaded_iff_mods)
qed

theorem package_import_which_undefined_witness:
  "\<exists>s1. example_fs [Def ''where''] [] swift_build_support = Some (True, init_body) \<and>
     \<not> loaded empty_interp swift_build_support \<and>
     gcd_import 1 (example_fs [Def ''where''] []) which_module
       (add_module swift_build_support True empty_interp) = Some (Inr (), s1) \<and>
     \<not> module_is_package s1 which_module \<and>
     mod_attr s1 which_module ''which'' = None \<and>
     \<not> loaded s1 (which_module @ [''which'']) \<and>
     gcd_import 2 (example_fs [Def ''where''] []) swift_build_support empty_interp =
       throw (ImportErrorName ''which'' which_module) (drop_module swift_build_support s1) \<and>
     \<not> loaded (drop_module swift_build_support s1) swift_build_support"
proof -
  have h1: "example_fs [Def ''where''] [] swift_build_support = Some (True, init_body)"
    by (simp add: example_fs_def)
  have h2: "\<not> loaded empty_interp swift_build_support"
    by (simp add: empty_interp_def loaded_def get_module_def)
  obtain s1 where h3: "gcd_import 1 (example_fs [Def ''where''] []) which_module
      (add_module swift_build_support True empty_interp) = Some (Inr (), s1)" and
    h4: "\<not> module_is_package s1 which_module" and
    h5: "mod_attr s1 which_module ''which'' = None" and
    h6: "\<not> loaded s1 (which_module @ [''which''])"
    by (auto simp: example_fs_def empty_interp_def add_module_def get_module_def loaded_def
        swift_build_support_def which_module_def client_def move_to_end_def set_attr_def
        mod_attr_def module_is_package_def ok_def)
  from package_import_which_undefined [OF h1 h2 h3 h4 h5 h6] h1 h2 h3 h4 h5 h6 show ?thesis
    by (simp add: numeral_2_eq_2)
qed

end
