(* ===== verification/ImportTermination.thy ===== *)
theory ImportTermination
  imports Importlib
begin

text \<open>
  Termination of the import algorithm. The fuel of \<open>Importlib\<close> bounds the nesting of
  imports; here it is shown that on a file system with finitely many source files some
  amount of fuel always suffices, whatever the module bodies import, circular imports
  included. The argument is CPython's: a module is entered in \<open>sys.modules\<close> before
  its body runs, so every import nested in a body starts with one more module loaded,
  and an import of a name with a parent first imports the shorter parent name. The
  measure is therefore the number of source files not yet loaded, then the length of
  the name.
\<close>

section \<open>More fuel never changes a result\<close>

lemma import_more_fuel:
  assumes "n \<le> m"
  shows "gcd_import n F q s = Some r \<Longrightarrow> gcd_import m F q s = Some r"
    and "find_and_load_unlocked n F q s = Some r \<Longrightarrow> find_and_load_unlocked m F q s = Some r"
    and "load_unlocked n F q s = Some r \<Longrightarrow> load_unlocked m F q s = Some r"
    and "exec_body n F q b s = Some r \<Longrightarrow> exec_body m F q b s = Some r"
    and "exec_stmt n F q st s = Some r \<Longrightarrow> exec_stmt m F q st s = Some r"
    and "handle_fromlist n F t xs s = Some r \<Longrightarrow> handle_fromlist m F t xs s = Some r"
  apply (rule le_out_SomeD [OF le_out_mono_nat [where f = "\<lambda>n. gcd_import n F q s", OF fuel_Suc(1) assms]], assumption)
  apply (rule le_out_SomeD [OF le_out_mono_nat [where f = "\<lambda>n. find_and_load_unlocked n F q s", OF fuel_Suc(2) assms]], assumption)
  apply (rule le_out_SomeD [OF le_out_mono_nat [where f = "\<lambda>n. load_unlocked n F q s", OF fuel_Suc(3) assms]], assumption)
  apply (rule le_out_SomeD [OF le_out_mono_nat [where f = "\<lambda>n. exec_body n F q b s", OF fuel_Suc(4) assms]], assumption)
  apply (rule le_out_SomeD [OF le_out_mono_nat [where f = "\<lambda>n. exec_stmt n F q st s", OF fuel_Suc(5) assms]], assumption)
  apply (rule le_out_SomeD [OF le_out_mono_nat [where f = "\<lambda>n. handle_fromlist n F t xs s", OF fuel_Suc(6) assms]], assumption)
  done

section \<open>The operations without imports are total\<close>

lemma bind_from_defined: "bind_from q t xs s \<noteq> None"
  by (induction xs arbitrary: s) (auto simp: ok_def throw_def split: sum.split)

lemma bind_names_defined: "bind_names skip q t vs s \<noteq> None"
  by (induction skip q t vs s rule: bind_names.induct) (auto simp: ok_def throw_def split: option.split)

lemma import_all_from_defined: "import_all_from q t s \<noteq> None"
  using bind_names_defined [of True q t _ s] bind_names_defined [of False q t _ s]
  by (auto simp: import_all_from_def throw_def split: option.split)

lemma move_to_end_defined: "move_to_end q s \<noteq> None"
  by (simp add: move_to_end_def ok_def throw_def split: option.split)

section \<open>Enough fuel\<close>

text \<open>
  Running a body terminates once every import started from a state that has at least
  the modules \<open>M\<close> loaded terminates: each statement performs finitely many imports
  in sequence, and loaded modules stay loaded (\<open>import_mods_mono\<close>), so the fuel of
  the longest of them is enough for all.
\<close>

lemma handle_fromlist_terminates:
  assumes imp: "\<And>q s'. M \<subseteq> mods s' \<Longrightarrow> \<exists>n r. gcd_import n F q s' = Some r"
    and "M \<subseteq> mods s"
  shows "\<exists>n r. handle_fromlist n F t xs s = Some r"
  using assms(2)
proof (induction xs arbitrary: s)
  case Nil
  show ?case by (auto simp: ok_def)
next
  case (Cons v xs)
  show ?case
  proof (cases v)
    case (VStr x)
    show ?thesis
    proof (cases "x = ''*'' \<or> mod_attr s t x \<noteq> None")
      case True
      from Cons.IH [OF Cons.prems] obtain n r where "handle_fromlist n F t xs s = Some r" by blast
      with True have "handle_fromlist n F t (VStr x # xs) s = Some r" by auto
      with VStr show ?thesis by blast
    next
      case False
      from imp [OF Cons.prems, where q = "t @ [x]"] obtain n1 r1 s1 where g: "gcd_import n1 F (t @ [x]) s = Some (r1, s1)"
        by auto
      have "M \<subseteq> mods s1" using Cons.prems import_mods_mono(1) [OF g] by blast
      from Cons.IH [OF this] obtain n2 r2 where h: "handle_fromlist n2 F t xs s1 = Some r2" by blast
      have g': "gcd_import (max n1 n2) F (t @ [x]) s = Some (r1, s1)"
        by (rule import_more_fuel(1) [OF _ g]) simp
      have h': "handle_fromlist (max n1 n2) F t xs s1 = Some r2"
        by (rule import_more_fuel(6) [OF _ h]) simp
      have "handle_fromlist (max n1 n2) F t (VStr x # xs) s \<noteq> None"
        using False g' h' by (cases r1) (auto simp: ok_def throw_def)
      with VStr show ?thesis by blast
    qed
  qed (auto simp: throw_def)
qed

lemma exec_stmt_terminates:
  assumes imp: "\<And>q s'. M \<subseteq> mods s' \<Longrightarrow> \<exists>n r. gcd_import n F q s' = Some r"
    and M: "M \<subseteq> mods s"
  shows "\<exists>n r. exec_stmt n F q st s = Some r"
proof (cases st)
  case (Import m)
  show ?thesis
  proof (cases "m = []")
    case False
    from imp [OF M, where q = m] obtain n1 r1 s1 where g1: "gcd_import n1 F m s = Some (r1, s1)"
      by auto
    have "M \<subseteq> mods s1" using M import_mods_mono(1) [OF g1] by blast
    from imp [OF this, where q = "[hd m]"] obtain n2 r2 s2 where
      g2: "gcd_import n2 F [hd m] s1 = Some (r2, s2)" by auto
    have "gcd_import (max n1 n2) F m s = Some (r1, s1)"
      and "gcd_import (max n1 n2) F [hd m] s1 = Some (r2, s2)"
      by (rule import_more_fuel(1) [OF _ g1], simp) (rule import_more_fuel(1) [OF _ g2], simp)
    with False Import have "exec_stmt (max n1 n2) F q st s \<noteq> None"
      by (cases r1; cases r2) (simp_all add: ok_def del: gcd_import.simps)
    then show ?thesis by blast
  qed (auto simp: Import throw_def)
next
  case (ImportFrom lvl m xs)
  show ?thesis
  proof (cases "resolve_name (package_of s q) lvl m")
    case (Inr t)
    from imp [OF M, where q = t] obtain n1 r1 s1 where g1: "gcd_import n1 F t s = Some (r1, s1)"
      by auto
    have "M \<subseteq> mods s1" using M import_mods_mono(1) [OF g1] by blast
    from handle_fromlist_terminates [OF imp this, of t "map VStr xs"] obtain n2 r2 s2 where
      h2: "handle_fromlist n2 F t (map VStr xs) s1 = Some (r2, s2)" by auto
    have "gcd_import (max n1 n2) F t s = Some (r1, s1)"
      and "handle_fromlist (max n1 n2) F t (map VStr xs) s1 = Some (r2, s2)"
      by (rule import_more_fuel(1) [OF _ g1], simp) (rule import_more_fuel(6) [OF _ h2], simp)
    with Inr ImportFrom have "exec_stmt (max n1 n2) F q st s \<noteq> None"
      by (cases r1; cases r2) (simp_all add: ok_def bind_from_defined del: gcd_import.simps not_None_eq)
    then show ?thesis by blast
  qed (auto simp: ImportFrom throw_def)
next
  case (ImportStar lvl m)
  show ?thesis
  proof (cases "resolve_name (package_of s q) lvl m")
    case (Inr t)
    from imp [OF M, where q = t] obtain n1 r1 s1 where g1: "gcd_import n1 F t s = Some (r1, s1)"
      by auto
    have "M \<subseteq> mods s1" using M import_mods_mono(1) [OF g1] by blast
    define its where "its = (case mod_attr s1 t ''__all__'' of
        None \<Rightarrow> [] | Some av \<Rightarrow> (case iter_items av of None \<Rightarrow> [] | Some items \<Rightarrow> items))"
    from handle_fromlist_terminates [OF imp \<open>M \<subseteq> mods s1\<close>, of t its] obtain n2 r2 s2 where
      h2: "handle_fromlist n2 F t its s1 = Some (r2, s2)" by auto
    have "gcd_import (max n1 n2) F t s = Some (r1, s1)"
      and "handle_fromlist (max n1 n2) F t its s1 = Some (r2, s2)"
      by (rule import_more_fuel(1) [OF _ g1], simp) (rule import_more_fuel(6) [OF _ h2], simp)
    with Inr ImportStar have "exec_stmt (max n1 n2) F q st s \<noteq> None"
      by (cases r1; cases r2)
         (auto simp: ok_def throw_def its_def import_all_from_defined split: option.splits
          simp del: gcd_import.simps not_None_eq)
    then show ?thesis by blast
  qed (auto simp: ImportStar throw_def)
next
  case (Assign x e)
  then show ?thesis by (auto simp: ok_def throw_def split: sum.split)
qed (auto simp: ok_def throw_def)

lemma exec_body_terminates:
  assumes imp: "\<And>q s'. M \<subseteq> mods s' \<Longrightarrow> \<exists>n r. gcd_import n F q s' = Some r"
    and "M \<subseteq> mods s"
  shows "\<exists>n r. exec_body n F q b s = Some r"
  using assms(2)
proof (induction b arbitrary: s)
  case Nil
  show ?case by (auto simp: ok_def)
next
  case (Cons st b)
  from exec_stmt_terminates [OF imp Cons.prems, of q st] obtain n1 r1 s1 where
    e1: "exec_stmt n1 F q st s = Some (r1, s1)" by auto
  have "M \<subseteq> mods s1" using Cons.prems import_mods_mono(5) [OF e1] by blast
  from Cons.IH [OF this] obtain n2 r2 where e2: "exec_body n2 F q b s1 = Some r2" by blast
  have "exec_stmt (max n1 n2) F q st s = Some (r1, s1)" and "exec_body (max n1 n2) F q b s1 = Some r2"
    by (rule import_more_fuel(5) [OF _ e1], simp) (rule import_more_fuel(4) [OF _ e2], simp)
  then have "exec_body (max n1 n2) F q (st # b) s \<noteq> None"
    by (cases r1) (simp_all del: exec_stmt.simps)
  then show ?case by blast
qed

text \<open>
  Loading a module that is not yet loaded: its body runs with one more source file
  in \<open>sys.modules\<close>, so the imports it starts have a smaller measure.
\<close>

lemma load_unlocked_terminates:
  assumes fin: "finite (dom F)" and nl: "\<not> loaded s q"
    and IH: "\<And>q' s'. card (dom F - mods s') < card (dom F - mods s) \<Longrightarrow>
               \<exists>n r. gcd_import n F q' s' = Some r"
  shows "\<exists>n r. load_unlocked n F q s = Some r"
proof (cases "F q")
  case None
  then show ?thesis by (auto simp: throw_def)
next
  case (Some fb)
  then obtain pkg body where fq: "F q = Some (pkg, body)" by (cases fb) auto
  let ?s0 = "add_module q pkg s"
  have imp: "\<exists>n r. gcd_import n F q' s' = Some r" if "mods ?s0 \<subseteq> mods s'" for q' s'
  proof (rule IH)
    have "dom F - mods s' \<subset> dom F - mods s"
      using that fq nl by (auto simp: loaded_iff_mods)
    then show "card (dom F - mods s') < card (dom F - mods s)"
      using fin by (simp add: psubset_card_mono)
  qed
  from exec_body_terminates [where s = ?s0 and q = q and b = body, OF imp order_refl]
  obtain n r1 s1 where
    e: "exec_body n F q body ?s0 = Some (r1, s1)" by auto
  then have "load_unlocked n F q s \<noteq> None"
    using fq by (cases r1) (simp_all add: move_to_end_defined del: exec_body.simps not_None_eq)
  then show ?thesis by blast
qed

lemma find_and_load_unlocked_terminates:
  assumes parent: "butlast q \<noteq> [] \<Longrightarrow> \<not> loaded s (butlast q) \<Longrightarrow>
                     \<exists>n r. gcd_import n F (butlast q) s = Some r"
    and load: "\<And>s1. mods s \<subseteq> mods s1 \<Longrightarrow> \<not> loaded s1 q \<Longrightarrow> \<exists>n r. load_unlocked n F q s1 = Some r"
    and nl: "\<not> loaded s q"
  shows "\<exists>n r. find_and_load_unlocked n F q s = Some r"
proof (cases "butlast q = []")
  case True
  from load [OF order_refl nl] obtain n r where "load_unlocked n F q s = Some r" by blast
  with True have "find_and_load_unlocked n F q s = Some r" by (simp del: load_unlocked.simps)
  then show ?thesis by blast
next
  case False
  define p where "p = butlast q"
  define K where "K n s1 = (if loaded s1 q then ok () s1
    else case get_module s1 p of
      None \<Rightarrow> throw (KeyError p) s1
    | Some pm \<Rightarrow> if \<not> is_package pm then throw (ModuleNotFoundError q) s1
        else obind (load_unlocked n F q s1) (\<lambda>_ s2.
          if loaded s2 p then ok () (set_attr p (last q) (VModule q) s2) else throw (KeyError p) s2))"
    for n s1
  have unf: "find_and_load_unlocked n F q s =
      obind (if loaded s p then ok () s else gcd_import n F p s) (\<lambda>_ s1. K n s1)" for n
    unfolding K_def p_def using False by (simp add: Let_def del: gcd_import.simps load_unlocked.simps)
  obtain n1 r1 s1 where
    first: "\<And>n. n1 \<le> n \<Longrightarrow> (if loaded s p then ok () s else gcd_import n F p s) = Some (r1, s1)"
    and sub: "mods s \<subseteq> mods s1"
  proof (cases "loaded s p")
    case True
    then show ?thesis using that [of 0 "Inr ()" s] by (simp add: ok_def)
  next
    case pl: False
    from parent [OF False pl [unfolded p_def]] obtain n1 r1 s1 where
      g: "gcd_import n1 F p s = Some (r1, s1)" unfolding p_def by auto
    show ?thesis
    proof (rule that [of n1 r1 s1])
      show "(if loaded s p then ok () s else gcd_import n F p s) = Some (r1, s1)" if "n1 \<le> n" for n
        using import_more_fuel(1) [OF that g] pl by simp
    qed (rule import_mods_mono(1) [OF g])
  qed
  obtain n2 where second: "\<And>n. n2 \<le> n \<Longrightarrow> K n s1 \<noteq> None"
  proof (cases "\<not> loaded s1 q \<and> (\<exists>pm. get_module s1 p = Some pm \<and> is_package pm)")
    case True
    from load [OF sub] True obtain n2 r3 s3 where l: "load_unlocked n2 F q s1 = Some (r3, s3)" by auto
    show ?thesis
    proof (rule that [of n2])
      show "K n s1 \<noteq> None" if "n2 \<le> n" for n
        using import_more_fuel(3) [OF that l] True
        by (cases r3) (auto simp: K_def ok_def throw_def simp del: load_unlocked.simps)
    qed
  next
    case False
    then show ?thesis using that [of 0] by (auto simp: K_def ok_def throw_def split: option.split)
  qed
  have "find_and_load_unlocked (max n1 n2) F q s \<noteq> None"
    using unf [of "max n1 n2"] first [of "max n1 n2"] second [of "max n1 n2"]
    by (cases r1) (simp_all del: not_None_eq)
  then show ?thesis by blast
qed

text \<open>
  The termination theorem: on a file system with finitely many source files, every
  import returns with enough fuel, whatever the bodies import. Induction on the number
  of source files not yet loaded and, inside, on the name: a parent import is of a
  shorter name in the same state; an import nested in a body runs with the module
  itself already in \<open>sys.modules\<close>.
\<close>

theorem gcd_import_terminates:
  assumes fin: "finite (dom F)"
  shows "\<exists>n r. gcd_import n F q s = Some r"
proof (induction "card (dom F - mods s)" arbitrary: q s rule: less_induct)
  case less
  have load: "\<exists>n r. load_unlocked n F q' s1 = Some r" if "mods s \<subseteq> mods s1" "\<not> loaded s1 q'" for q' s1
  proof (rule load_unlocked_terminates [OF fin that(2)])
    fix q'' s'
    assume lt: "card (dom F - mods s') < card (dom F - mods s1)"
    have "card (dom F - mods s1) \<le> card (dom F - mods s)"
      using fin that(1) by (intro card_mono) auto
    with lt show "\<exists>n r. gcd_import n F q'' s' = Some r" using less by simp
  qed
  show ?case
  proof (induction q rule: rev_induct)
    case Nil
    have "gcd_import (Suc 0) F [] s = Some (Inl ValueErrorEmpty, s)" by (simp add: throw_def)
    then show ?case by blast
  next
    case (snoc x p)
    show ?case
    proof (cases "loaded s (p @ [x])")
      case True
      then have "gcd_import (Suc 0) F (p @ [x]) s = Some (Inr (), s)" by (simp add: ok_def)
      then show ?thesis by blast
    next
      case False
      have "\<exists>n r. find_and_load_unlocked n F (p @ [x]) s = Some r"
        using snoc.IH load False by (intro find_and_load_unlocked_terminates) simp_all
      then obtain n r where "find_and_load_unlocked n F (p @ [x]) s = Some r" by blast
      with False have "gcd_import (Suc n) F (p @ [x]) s = Some r"
        by (simp del: find_and_load_unlocked.simps)
      then show ?thesis by blast
    qed
  qed
qed

end
