(* ===== verification/ImportInvariants.thy ===== *)
theory ImportInvariants
  imports Importlib
begin

text \<open>
  Invariants of the interpreter state. A property of \<open>sys.modules\<close> that the
  primitive operations preserve (storing an attribute, registering a module whose
  source the finder provides, deleting an entry, moving an entry to the end) is
  preserved by every import, whatever the module bodies do: one computation induction
  over the import functions, done once here for any such property. Two instances
  follow: \<open>sys.modules\<close> stays a dictionary (no name has two entries), and only
  modules with a source file are ever registered.
\<close>

definition prim_inv :: "finder \<Rightarrow> (interp \<Rightarrow> bool) \<Rightarrow> bool" where
  "prim_inv F I \<longleftrightarrow>
     (\<forall>q x v s. I s \<longrightarrow> I (set_attr q x v s)) \<and>
     (\<forall>q pkg b s. F q = Some (pkg, b) \<longrightarrow> I s \<longrightarrow> I (add_module q pkg s)) \<and>
     (\<forall>q s. I s \<longrightarrow> I (drop_module q s)) \<and>
     (\<forall>q s r s'. I s \<longrightarrow> move_to_end q s = Some (r, s') \<longrightarrow> I s')"

text \<open>\<open>sys.modules\<close> as a dictionary: every name has at most one entry.\<close>

definition wf_modules :: "interp \<Rightarrow> bool" where
  "wf_modules s \<longleftrightarrow> distinct (module_order s)"

section \<open>The operations without imports\<close>

lemma prim_invD:
  assumes "prim_inv F I"
  shows "I s \<Longrightarrow> I (set_attr q x v s)"
    and "F q = Some (pkg, b) \<Longrightarrow> I s \<Longrightarrow> I (add_module q pkg s)"
    and "I s \<Longrightarrow> I (drop_module q s)"
    and "I s \<Longrightarrow> move_to_end q s = Some (r, s') \<Longrightarrow> I s'"
  using assms unfolding prim_inv_def by blast+

lemma bind_from_inv:
  "prim_inv F I \<Longrightarrow> bind_from q t xs s = Some (r, s') \<Longrightarrow> I s \<Longrightarrow> I s'"
  by (induction xs arbitrary: s) (auto simp: ok_def throw_def split: sum.splits dest: prim_invD(1))

lemma bind_names_inv:
  "prim_inv F I \<Longrightarrow> bind_names skip q t vs s = Some (r, s') \<Longrightarrow> I s \<Longrightarrow> I s'"
  by (induction skip q t vs s rule: bind_names.induct)
     (auto simp: ok_def throw_def split: if_splits option.splits dest: prim_invD(1))

lemma import_all_from_inv:
  "prim_inv F I \<Longrightarrow> import_all_from q t s = Some (r, s') \<Longrightarrow> I s \<Longrightarrow> I s'"
  by (auto simp: import_all_from_def throw_def split: option.splits dest: bind_names_inv)

section \<open>Every import preserves an invariant of the primitives\<close>

lemma import_inv:
  shows "prim_inv F I \<Longrightarrow> gcd_import n F q s = Some (r, s') \<Longrightarrow> I s \<Longrightarrow> I s'"
    and "prim_inv F I \<Longrightarrow> find_and_load_unlocked n F q s = Some (r, s') \<Longrightarrow> I s \<Longrightarrow> I s'"
    and "prim_inv F I \<Longrightarrow> load_unlocked n F q s = Some (r, s') \<Longrightarrow> I s \<Longrightarrow> I s'"
    and "prim_inv F I \<Longrightarrow> exec_body n F q b s = Some (r, s') \<Longrightarrow> I s \<Longrightarrow> I s'"
    and "prim_inv F I \<Longrightarrow> exec_stmt n F q st s = Some (r, s') \<Longrightarrow> I s \<Longrightarrow> I s'"
    and "prim_inv F I \<Longrightarrow> handle_fromlist n F t xs s = Some (r, s') \<Longrightarrow> I s \<Longrightarrow> I s'"
proof (induction n F q s and n F q s and n F q s and n F q b s and n F q st s and n F t xs s
       arbitrary: r s' and r s' and r s' and r s' and r s' and r s' rule: import_induct)
  case (2 n F q s)
  then show ?case
    by (auto simp: ok_def throw_def split: if_splits simp del: find_and_load_unlocked.simps)
next
  case (3 n F q s)
  then show ?case
    by (auto simp: Let_def obind_eq_Some ok_def throw_def split: if_splits option.splits
        simp del: gcd_import.simps load_unlocked.simps intro: prim_invD(1))
next
  case (4 n F q s)
  show ?case
  proof (cases "F q")
    case None
    with "4.prems" show ?thesis by (simp add: throw_def)
  next
    case (Some fb)
    then obtain pkg body where fq: "F q = Some (pkg, body)" by (cases fb) auto
    let ?s0 = "add_module q pkg s"
    from "4.prems"(2) fq obtain r1 s1 where
      ex: "exec_body n F q body ?s0 = Some (r1, s1)" and
      rest: "obind (ocatch (Some (r1, s1)) (\<lambda>e s'. throw e (drop_module q s'))) (\<lambda>_. move_to_end q)
               = Some (r, s')"
      by (cases "exec_body n F q body ?s0") auto
    have "I ?s0" using prim_invD(2) [OF "4.prems"(1) fq "4.prems"(3)] .
    with "4.IH" [OF fq refl "4.prems"(1) ex] have "I s1" .
    with rest "4.prems"(1) show ?thesis
      by (cases r1) (auto simp: throw_def intro: prim_invD(3) prim_invD(4))
  qed
next
  case (6 n F q st sts s)
  then show ?case by (auto simp: obind_eq_Some simp del: exec_stmt.simps)
next
  case (7 n F q m s)
  then show ?case
    by (auto simp: obind_eq_Some ok_def throw_def split: if_splits
        simp del: gcd_import.simps intro: prim_invD(1))
next
  case (8 n F q lvl m xs s)
  then show ?case
    by (auto simp: obind_eq_Some ok_def throw_def split: if_splits sum.splits
        simp del: gcd_import.simps handle_fromlist.simps dest: bind_from_inv)
next
  case (9 n F q lvl m s)
  then show ?case
    by (auto simp: obind_eq_Some ok_def throw_def split: if_splits sum.splits option.splits
        simp del: gcd_import.simps handle_fromlist.simps dest: import_all_from_inv)
next
  case (10 n F q x e s)
  then show ?case
    by (auto simp: ok_def throw_def split: sum.splits intro: prim_invD(1))
next
  case (11 n F q f s)
  then show ?case by (auto simp: ok_def intro: prim_invD(1))
next
  case (14 n F t x xs s)
  then show ?case
    by (auto simp: obind_eq_Some ocatch_eq_Some ok_def throw_def split: if_splits
        simp del: gcd_import.simps)
qed (auto simp: ok_def throw_def)

section \<open>Instances\<close>

lemma wf_modules_prim_inv: "prim_inv F wf_modules"
  unfolding prim_inv_def
proof (intro conjI allI impI)
  fix q pkg b s
  assume "wf_modules s"
  then show "wf_modules (add_module q pkg s)"
    by (simp add: wf_modules_def module_order_def add_module_def map_fst_update)
next
  fix q s r s'
  assume "wf_modules s" and "move_to_end q s = Some (r, s')"
  then show "wf_modules s'"
    by (auto simp: wf_modules_def module_order_def move_to_end_def map_fst_delete ok_def throw_def
        split: option.splits)
qed (simp_all add: wf_modules_def)

lemma sources_prim_inv: "prim_inv F (\<lambda>s. mods s \<subseteq> M \<union> dom F)"
  unfolding prim_inv_def by (auto dest: move_to_end_mods)

lemma import_wf_modules:
  "gcd_import n F q s = Some (r, s') \<Longrightarrow> wf_modules s \<Longrightarrow> wf_modules s'"
  by (rule import_inv(1) [OF wf_modules_prim_inv])

lemma import_sources:
  "gcd_import n F q s = Some (r, s') \<Longrightarrow> mods s' \<subseteq> mods s \<union> dom F"
  using import_inv(1) [OF sources_prim_inv [of F "mods s"]] by blast

end
