(* ===== verification/PackageImport.thy ===== *)
theory PackageImport
  imports SwiftBuildSupport ImportTermination ImportInvariants
begin

text \<open>
  Further properties of \<open>import swift_build_support\<close>, for any contents of the sibling
  modules: the contract \<open>init_spec\<close> the initializer implements on its namespace;
  total correctness on a finite file system; the order it leaves
  \<open>sys.modules\<close> in; and what a failed import leaves behind.
\<close>

text \<open>
  The contract of the initializer on its own namespace, as a function of the
  namespace: line 18 binds \<open>which\<close> to the value \<open>from .which import which\<close> reads,
  lines 20 to 30 bind \<open>__all__\<close> to the list of the nine names; nothing else.
\<close>

definition init_spec :: "pyval \<Rightarrow> (ident \<rightharpoonup> pyval) \<Rightarrow> (ident \<rightharpoonup> pyval)" where
  "init_spec v m = m(''which'' \<mapsto> v, ''__all__'' \<mapsto> VList (map VStr swift_all))"

section \<open>A successful run of the initializer\<close>

lemma which_sub_ne: "which_module @ [x] \<noteq> swift_build_support"
  by (simp add: which_module_def swift_build_support_def)

text \<open>
  Whatever \<open>which.py\<close> does, a run of the initializer that ends normally has bound
  \<open>__all__\<close> (the last statement) and \<open>which\<close> (line 18), and has left \<open>.which\<close>
  loaded.
\<close>

lemma init_body_Inr:
  assumes "exec_body k F swift_build_support init_body (add_module swift_build_support True s) =
             Some (Inr (), s3)"
  shows "mod_attr s3 swift_build_support ''__all__'' = Some (VList (map VStr swift_all)) \<and>
         mod_attr s3 swift_build_support ''which'' \<noteq> None \<and> loaded s3 which_module"
proof -
  let ?P = swift_build_support and ?s0 = "add_module swift_build_support True s"
  have "module_is_package ?s0 ?P" by simp
  from assms [unfolded init_body_exec [OF this]] obtain s1 s2 s2' where
    g: "gcd_import k F which_module ?s0 = Some (Inr (), s1)" and
    h: "(if module_is_package s1 which_module
         then handle_fromlist k F which_module [VStr ''which''] s1 else ok () s1) = Some (Inr (), s2)" and
    b: "bind_from ?P which_module [''which''] s2 = Some (Inr (), s2')" and
    s3: "s3 = set_attr ?P ''__all__'' (VList (map VStr swift_all)) s2'"
    by (auto simp: obind_eq_Some ok_def simp del: gcd_import.simps handle_fromlist.simps bind_from.simps)
  have m1: "mods ?s0 \<subseteq> mods s1" by (rule import_mods_mono(1) [OF g])
  have m2: "mods s1 \<subseteq> mods s2"
    using h import_mods_mono(6) [of k F which_module "[VStr ''which'']" s1 "Inr ()" s2]
    by (auto simp: ok_def split: if_splits)
  from b obtain v where s2': "s2' = set_attr ?P ''which'' v s2"
    by (auto simp: ok_def throw_def split: sum.splits)
  have "loaded s2 ?P" using m1 m2 by (auto simp: loaded_iff_mods)
  moreover have "loaded s2 which_module" using gcd_import_Inr [OF g] m2 by (auto simp: loaded_iff_mods)
  ultimately show ?thesis using s3 s2' by simp
qed

text \<open>A successful import of the package is a successful run of its initializer.\<close>

lemma package_import_Inr:
  assumes "F swift_build_support = Some (True, init_body)" and "\<not> loaded s swift_build_support"
    and "gcd_import n F swift_build_support s = Some (Inr (), s')"
  shows "mod_attr s' swift_build_support ''__all__'' = Some (VList (map VStr swift_all)) \<and>
         mod_attr s' swift_build_support ''which'' \<noteq> None \<and>
         loaded s' swift_build_support \<and> loaded s' which_module"
proof (cases n)
  case (Suc k)
  let ?P = swift_build_support
  have "obind (ocatch (exec_body k F ?P init_body (add_module ?P True s))
      (\<lambda>e s'. throw e (drop_module ?P s'))) (\<lambda>_. move_to_end ?P) = Some (Inr (), s')"
    using assms(3) package_import_unfold [where F = F and s = s and k = k, OF assms(1,2)] Suc
    by simp
  then obtain s3 where e: "exec_body k F ?P init_body (add_module ?P True s) = Some (Inr (), s3)"
    and mv: "move_to_end ?P s3 = Some (Inr (), s')"
    by (auto simp: obind_eq_Some ocatch_eq_Some throw_def simp del: exec_body.simps)
  from move_to_end_Inr [OF mv] have l: "loaded s' ?P" and a: "mod_attr s' = mod_attr s3"
    by (auto intro: mod_attr_cong_get_module)
  have "mods s' = mods s3" by (rule move_to_end_mods [OF mv])
  with init_body_Inr [OF e] l a show ?thesis by (simp add: loaded_iff_mods)
qed (use assms in simp)

section \<open>Importing the package with a plain which.py\<close>

text \<open>
  The nested import of line 18 when \<open>which.py\<close> is a plain module of simple
  statements: it loads \<open>.which\<close> with the namespace its body builds, and binds it as
  the only attribute of the fresh package.
\<close>

lemma which_import_simple:
  assumes "F which_module = Some (False, b)" and "simple_body b" and "\<not> loaded s which_module"
  shows "\<exists>s1. gcd_import (Suc k) F which_module (add_module swift_build_support True s) = Some (Inr (), s1) \<and>
    mods s1 = insert which_module (insert swift_build_support (mods s)) \<and>
    mod_attr s1 swift_build_support = [''which'' \<mapsto> VModule which_module] \<and>
    mod_attr s1 which_module = body_attrs which_module b Map.empty \<and>
    module_is_package s1 swift_build_support \<and> \<not> module_is_package s1 which_module \<and>
    (\<forall>q. q \<noteq> swift_build_support \<longrightarrow> q \<noteq> which_module \<longrightarrow> get_module s1 q = get_module s q) \<and>
    module_order s1 = module_order (add_module swift_build_support True s) @ [which_module]"
proof -
  let ?P = swift_build_support and ?s0 = "add_module swift_build_support True s"
  have W: "which_module = ?P @ [''which'']" by (simp add: which_module_def)
  have "module_is_package ?s0 ?P" by simp
  moreover have "\<not> loaded ?s0 (?P @ [''which''])" using assms(3) W by simp
  moreover have "F (?P @ [''which'']) = Some (False, b)" using assms(1) W by simp
  ultimately obtain s1 where
    "gcd_import (Suc k) F (?P @ [''which'']) ?s0 = ok () s1"
    "mods s1 = insert (?P @ [''which'']) (mods ?s0)"
    "mod_attr s1 ?P = (mod_attr ?s0 ?P)(''which'' \<mapsto> VModule (?P @ [''which'']))"
    "module_is_package s1 ?P" "\<not> module_is_package s1 (?P @ [''which''])"
    "\<forall>q. q \<noteq> ?P \<longrightarrow> q \<noteq> ?P @ [''which''] \<longrightarrow> get_module s1 q = get_module ?s0 q"
    "module_order s1 = module_order ?s0 @ [?P @ [''which'']]"
    "mod_attr s1 (?P @ [''which'']) = body_attrs (?P @ [''which'']) b Map.empty"
    using import_simple_submodule [where t = ?P and x = "''which''" and s = ?s0 and F = F and k = k,
      OF swift_names(1)] assms(2) by blast
  moreover have "mod_attr ?s0 ?P = Map.empty" by (simp add: fun_eq_iff)
  ultimately show ?thesis unfolding W [symmetric] by (auto simp: ok_def get_module_add_module)
qed

text \<open>
  The whole import of the package when \<open>which.py\<close> is a plain module of simple
  statements binding \<open>which\<close>: the package ends with exactly two attributes.
\<close>

lemma package_import_simple:
  assumes "F swift_build_support = Some (True, init_body)"
    and "F which_module = Some (False, b)" and "simple_body b"
    and "body_attrs which_module b Map.empty ''which'' = Some v"
    and "\<not> loaded s swift_build_support" and "\<not> loaded s which_module"
  shows "\<exists>s'. gcd_import (Suc (Suc k)) F swift_build_support s = ok () s' \<and>
    mod_attr s' swift_build_support = [''which'' \<mapsto> v, ''__all__'' \<mapsto> VList (map VStr swift_all)] \<and>
    module_is_package s' swift_build_support \<and> \<not> module_is_package s' which_module \<and>
    mods s' = insert which_module (insert swift_build_support (mods s)) \<and>
    (\<forall>q. q \<noteq> swift_build_support \<longrightarrow> q \<noteq> which_module \<longrightarrow> get_module s' q = get_module s q)"
proof -
  let ?P = swift_build_support and ?s0 = "add_module swift_build_support True s"
  from which_import_simple [where F = F and b = b and s = s and k = k, OF assms(2,3,6)] obtain s1 where
    g: "gcd_import (Suc k) F which_module ?s0 = Some (Inr (), s1)" and
    m1: "mods s1 = insert which_module (insert ?P (mods s))" and
    a1: "mod_attr s1 ?P = [''which'' \<mapsto> VModule which_module]" and
    w1: "mod_attr s1 which_module = body_attrs which_module b Map.empty" and
    p1: "module_is_package s1 ?P" "\<not> module_is_package s1 which_module" and
    f1: "\<forall>q. q \<noteq> ?P \<longrightarrow> q \<noteq> which_module \<longrightarrow> get_module s1 q = get_module s q" by blast
  let ?s3 = "set_attr ?P ''__all__'' (VList (map VStr swift_all)) (set_attr ?P ''which'' v s1)"
  have "exec_body (Suc k) F ?P init_body ?s0 = ok () ?s3"
    using init_body_result [OF g] p1(2) w1 assms(4) by (simp add: import_from_def)
  moreover have l1: "loaded s1 ?P" by (rule package_loaded_after_which [OF g])
  then have "loaded ?s3 ?P" by simp
  from move_to_end_loaded [OF this] obtain s' where
    mv: "move_to_end ?P ?s3 = ok () s'" and gs: "get_module s' = get_module ?s3" and
    ms: "mods s' = mods ?s3" by blast
  ultimately have "gcd_import (Suc (Suc k)) F ?P s = ok () s'"
    using package_import_unfold [where F = F and s = s and k = "Suc k", OF assms(1,5)] by simp
  moreover have "mod_attr s' ?P = [''which'' \<mapsto> v, ''__all__'' \<mapsto> VList (map VStr swift_all)]"
    using mod_attr_cong_get_module [OF gs] a1 l1 by (simp add: mod_attr_set_attr_same)
  moreover have "module_is_package s' = module_is_package ?s3"
    using gs by (simp add: module_is_package_def [abs_def])
  then have "module_is_package s' ?P" "\<not> module_is_package s' which_module" using p1 by simp_all
  moreover have "\<forall>q. q \<noteq> ?P \<longrightarrow> q \<noteq> which_module \<longrightarrow> get_module s' q = get_module s q"
    using gs f1 by (simp add: get_module_set_attr)
  ultimately show ?thesis using ms m1 by simp
qed

text \<open>The example file system has finitely many source files.\<close>

lemma example_fs_finite: "finite (dom (example_fs b absent))"
proof -
  have "dom (example_fs b absent) \<subseteq>
      {swift_build_support, which_module, client} \<union> (\<lambda>x. swift_build_support @ [x]) ` set swift_all"
  proof
    fix q
    assume "q \<in> dom (example_fs b absent)"
    then have "q = swift_build_support \<or> q = which_module \<or> q = client \<or>
        (butlast q = swift_build_support \<and> q \<noteq> [] \<and> last q \<in> set swift_all)"
      unfolding example_fs_def dom_def by (simp split: if_splits)
    then show "q \<in> {swift_build_support, which_module, client} \<union>
        (\<lambda>x. swift_build_support @ [x]) ` set swift_all"
    proof (elim disjE conjE)
      assume "butlast q = swift_build_support" "q \<noteq> []" "last q \<in> set swift_all"
      then have "q = swift_build_support @ [last q]" by (metis append_butlast_last_id)
      with \<open>last q \<in> set swift_all\<close> show ?thesis by blast
    qed auto
  qed
  then show ?thesis by (rule finite_subset) simp
qed

section \<open>Total correctness\<close>

text \<open>
  C4. On any file system with finitely many source files, whatever \<open>which.py\<close> and
  the other siblings contain (they may import the package back), importing the package
  returns, given enough fuel. If it raises, the package is not left in
  \<open>sys.modules\<close>; if it succeeds, the package and \<open>.which\<close> are loaded, the
  package's \<open>__all__\<close> is the list of lines 20 to 30 and its \<open>which\<close> is bound.
\<close>

theorem package_import_total:
  assumes "finite (dom F)" and "F swift_build_support = Some (True, init_body)"
    and "\<not> loaded s swift_build_support"
  shows "\<exists>n r s'. gcd_import n F swift_build_support s = Some (r, s') \<and>
    (case r of
       Inl e \<Rightarrow> \<not> loaded s' swift_build_support
     | Inr _ \<Rightarrow> loaded s' swift_build_support \<and> loaded s' which_module \<and>
         mod_attr s' swift_build_support ''__all__'' = Some (VList (map VStr swift_all)) \<and>
         mod_attr s' swift_build_support ''which'' \<noteq> None)"
proof -
  obtain n r0 where "gcd_import n F swift_build_support s = Some r0"
    using gcd_import_terminates [OF assms(1)] by blast
  then obtain r s' where g: "gcd_import n F swift_build_support s = Some (r, s')"
    by (cases r0) blast
  show ?thesis
  proof (cases r)
    case (Inl e)
    have "\<not> loaded s' swift_build_support"
      using gcd_import_rollback [of n F "''swift_build_support''" s e s'] g Inl assms(3)
      by (simp add: swift_build_support_def)
    with g Inl show ?thesis by (intro exI [of _ n] exI [of _ r] exI [of _ s']) simp
  next
    case (Inr u)
    with g package_import_Inr [where F = F and s = s and n = n and s' = s', OF assms(2,3)]
    show ?thesis by (intro exI [of _ n] exI [of _ r] exI [of _ s']) simp
  qed
qed

theorem package_import_total_witness:
  "finite (dom (example_fs [Raise ''boom''] [])) \<and>
   example_fs [Raise ''boom''] [] swift_build_support = Some (True, init_body) \<and>
   \<not> loaded empty_interp swift_build_support \<and>
   (\<exists>n r s'. gcd_import n (example_fs [Raise ''boom''] []) swift_build_support empty_interp = Some (r, s') \<and>
     (case r of
        Inl e \<Rightarrow> \<not> loaded s' swift_build_support
      | Inr _ \<Rightarrow> loaded s' swift_build_support \<and> loaded s' which_module \<and>
          mod_attr s' swift_build_support ''__all__'' = Some (VList (map VStr swift_all)) \<and>
          mod_attr s' swift_build_support ''which'' \<noteq> None))"
proof -
  have h1: "finite (dom (example_fs [Raise ''boom''] []))" by (rule example_fs_finite)
  have h2: "example_fs [Raise ''boom''] [] swift_build_support = Some (True, init_body)"
    by (simp add: example_fs_def)
  have h3: "\<not> loaded empty_interp swift_build_support" by (simp add: example_simps)
  from package_import_total [OF h1 h2 h3] h1 h2 h3 show ?thesis by blast
qed

section \<open>The order of sys.modules\<close>

text \<open>
  C5. With a plain \<open>which.py\<close> of simple statements, importing the package appends
  to \<open>list(sys.modules)\<close> first \<open>swift_build_support.which\<close> and then the package,
  although the package was registered first: \<open>_load_unlocked\<close> moves each module to
  the end once its body has run, and the package's body finishes last. If line 18
  raises, only \<open>.which\<close> is appended.
\<close>

theorem package_import_order:
  assumes "F swift_build_support = Some (True, init_body)"
    and "F which_module = Some (False, b)" and "simple_body b"
    and "\<not> loaded s swift_build_support" and "\<not> loaded s which_module"
  shows "\<exists>r s'. gcd_import (Suc (Suc k)) F swift_build_support s = Some (r, s') \<and>
           module_order s' = module_order s @
             (case r of Inl _ \<Rightarrow> [which_module] | Inr _ \<Rightarrow> [which_module, swift_build_support])"
proof -
  let ?P = swift_build_support and ?s0 = "add_module swift_build_support True s"
  have o0: "module_order ?s0 = module_order s @ [?P]" by (rule module_order_add_module [OF assms(4)])
  from which_import_simple [where F = F and b = b and s = s and k = k, OF assms(2,3,5)] obtain s1 where
    g': "gcd_import (Suc k) F which_module ?s0 = Some (Inr (), s1)" and
    np: "\<not> module_is_package s1 which_module" and
    o1: "module_order s1 = module_order ?s0 @ [which_module]" by blast
  have fl: "filter (\<lambda>q. q \<noteq> ?P) (module_order s1) = module_order s @ [which_module]"
    using o0 o1 assms(4) by (auto simp: loaded_iff_mods intro!: filter_True)
  have l1: "loaded s1 ?P" by (rule package_loaded_after_which [OF g'])
  have ex: "exec_body (Suc k) F ?P init_body ?s0 =
      (case import_from s1 which_module ''which'' of
        Inl e \<Rightarrow> throw e s1
      | Inr v \<Rightarrow> ok () (set_attr ?P ''__all__'' (VList (map VStr swift_all)) (set_attr ?P ''which'' v s1)))"
    using init_body_result [OF g'] np by simp
  have unf: "gcd_import (Suc (Suc k)) F ?P s =
      obind (ocatch (exec_body (Suc k) F ?P init_body ?s0) (\<lambda>e s'. throw e (drop_module ?P s')))
        (\<lambda>_. move_to_end ?P)"
    by (rule package_import_unfold [where F = F and s = s, OF assms(1,4)])
  show ?thesis
  proof (cases "import_from s1 which_module ''which''")
    case (Inl e)
    with unf ex fl show ?thesis by (simp add: throw_def)
  next
    case (Inr v)
    let ?s3 = "set_attr ?P ''__all__'' (VList (map VStr swift_all)) (set_attr ?P ''which'' v s1)"
    from l1 have "loaded ?s3 ?P" by simp
    from move_to_end_loaded [OF this] obtain s' where mv: "move_to_end ?P ?s3 = ok () s'" by blast
    then have "module_order s' = filter (\<lambda>q. q \<noteq> ?P) (module_order ?s3) @ [?P]"
      using move_to_end_order [of ?P ?s3 "()" s'] by (simp add: ok_def)
    with unf ex Inr mv fl show ?thesis by (simp add: ok_def)
  qed
qed

theorem package_import_order_witness:
  "example_fs [Def ''which''] [] swift_build_support = Some (True, init_body) \<and>
   example_fs [Def ''which''] [] which_module = Some (False, [Def ''which'']) \<and>
   simple_body [Def ''which''] \<and>
   \<not> loaded empty_interp swift_build_support \<and> \<not> loaded empty_interp which_module \<and>
   (\<exists>r s'. gcd_import (Suc (Suc 0)) (example_fs [Def ''which''] []) swift_build_support empty_interp
       = Some (r, s') \<and>
     module_order s' = module_order empty_interp @
       (case r of Inl _ \<Rightarrow> [which_module] | Inr _ \<Rightarrow> [which_module, swift_build_support]))"
proof -
  have h1: "example_fs [Def ''which''] [] swift_build_support = Some (True, init_body)"
    and h2: "example_fs [Def ''which''] [] which_module = Some (False, [Def ''which''])"
    and h3: "simple_body [Def ''which'']"
    and h4: "\<not> loaded empty_interp swift_build_support"
    and h5: "\<not> loaded empty_interp which_module"
    by (simp_all add: example_simps)
  from package_import_order [where F = "example_fs [Def ''which''] []" and s = empty_interp,
      OF h1 h2 h3 h4 h5, of 0] h1 h2 h3 h4 h5
  show ?thesis by blast
qed

section \<open>What a failed import leaves behind\<close>

text \<open>
  C6. When \<open>which.py\<close> loads but defines no \<open>which\<close>, the failed package import
  leaves \<open>swift_build_support.which\<close> in \<open>sys.modules\<close> without its package. From
  such a state every later import of the package fails again with the same
  \<open>ImportError\<close> and leaves \<open>sys.modules\<close> exactly as it was: line 18 finds the
  cached \<open>.which\<close> and never reads \<open>which.py\<close> again.
\<close>

theorem package_import_retry_fails:
  assumes "F swift_build_support = Some (True, init_body)" and "\<not> loaded s swift_build_support"
    and "loaded s which_module" and "\<not> module_is_package s which_module"
    and "mod_attr s which_module ''which'' = None" and "\<not> loaded s (which_module @ [''which''])"
  shows "gcd_import (Suc (Suc k)) F swift_build_support s =
           throw (ImportErrorName ''which'' which_module) s"
proof -
  let ?s0 = "add_module swift_build_support True s"
  have g: "gcd_import (Suc k) F which_module ?s0 = Some (Inr (), ?s0)"
    using assms(3) by (simp add: ok_def)
  have "exec_body (Suc k) F swift_build_support init_body ?s0 =
      throw (ImportErrorName ''which'' which_module) ?s0"
    using init_body_result [OF g] assms(4-6) which_sub_ne by (simp add: import_from_def)
  then show ?thesis
    using package_import_unfold [where k = "Suc k" and F = F and s = s, OF assms(1,2)]
      drop_module_add_module [OF assms(2)]
    by simp
qed

theorem package_import_retry_fails_witness:
  "let F = example_fs [Def ''where''] [];
       s = snd (the (gcd_import 2 F swift_build_support empty_interp))
   in F swift_build_support = Some (True, init_body) \<and> \<not> loaded s swift_build_support \<and>
      loaded s which_module \<and> \<not> module_is_package s which_module \<and>
      mod_attr s which_module ''which'' = None \<and> \<not> loaded s (which_module @ [''which'']) \<and>
      gcd_import (Suc (Suc 0)) F swift_build_support s = throw (ImportErrorName ''which'' which_module) s"
proof -
  define F where "F = example_fs [Def ''where''] []"
  define s where "s = snd (the (gcd_import 2 F swift_build_support empty_interp))"
  have h1: "F swift_build_support = Some (True, init_body)" by (simp add: F_def example_fs_def)
  have h2: "\<not> loaded s swift_build_support" by (simp add: s_def F_def example_simps)
  have h3: "loaded s which_module" by (simp add: s_def F_def example_simps)
  have h4: "\<not> module_is_package s which_module" by (simp add: s_def F_def example_simps)
  have h5: "mod_attr s which_module ''which'' = None" by (simp add: s_def F_def example_simps)
  have h6: "\<not> loaded s (which_module @ [''which''])" by (simp add: s_def F_def example_simps)
  from package_import_retry_fails [where F = F and s = s, OF h1 h2 h3 h4 h5 h6, of 0] h1 h2 h3 h4 h5 h6 show ?thesis
    by (simp add: F_def s_def Let_def)
qed

section \<open>The initializer refines its contract\<close>

text \<open>
  C8. Once line 18 has imported \<open>.which\<close> and \<open>IMPORT_FROM\<close> reads a value
  \<open>v\<close> for \<open>which\<close>, the initializer's body ends normally, the package namespace it
  leaves is \<open>init_spec v\<close> of the namespace it found, and no other module of
  \<open>sys.modules\<close> is touched by the initializer's own statements.
\<close>

theorem init_body_refines:
  assumes "gcd_import k F which_module (add_module swift_build_support True s) = Some (Inr (), s1)"
    and "module_is_package s1 which_module \<longrightarrow> mod_attr s1 which_module ''which'' \<noteq> None"
    and "import_from s1 which_module ''which'' = Inr v"
  shows "\<exists>s3. exec_body k F swift_build_support init_body (add_module swift_build_support True s) = ok () s3 \<and>
           mod_attr s3 swift_build_support = init_spec v (mod_attr s1 swift_build_support) \<and>
           (\<forall>q. q \<noteq> swift_build_support \<longrightarrow> get_module s3 q = get_module s1 q)"
proof -
  let ?P = swift_build_support
  let ?s3 = "set_attr ?P ''__all__'' (VList (map VStr swift_all)) (set_attr ?P ''which'' v s1)"
  have "exec_body k F ?P init_body (add_module ?P True s) = ok () ?s3"
    using init_body_result [OF assms(1,2)] assms(3) by simp
  moreover have "loaded s1 ?P" by (rule package_loaded_after_which [OF assms(1)])
  then have "mod_attr ?s3 ?P = init_spec v (mod_attr s1 ?P)"
    by (simp add: init_spec_def mod_attr_set_attr_same)
  moreover have "\<forall>q. q \<noteq> ?P \<longrightarrow> get_module ?s3 q = get_module s1 q"
    by (simp add: get_module_set_attr)
  ultimately show ?thesis by blast
qed

theorem init_body_refines_witness:
  "\<exists>s1 s3. gcd_import 1 (example_fs [Def ''which''] []) which_module
        (add_module swift_build_support True empty_interp) = Some (Inr (), s1) \<and>
     \<not> module_is_package s1 which_module \<and>
     import_from s1 which_module ''which'' = Inr (VFunc which_module ''which'') \<and>
     exec_body 1 (example_fs [Def ''which''] []) swift_build_support init_body
        (add_module swift_build_support True empty_interp) = ok () s3 \<and>
     mod_attr s3 swift_build_support =
        init_spec (VFunc which_module ''which'') (mod_attr s1 swift_build_support)"
proof -
  obtain s1 where h1: "gcd_import 1 (example_fs [Def ''which''] []) which_module
      (add_module swift_build_support True empty_interp) = Some (Inr (), s1)" and
    h2: "\<not> module_is_package s1 which_module" and
    h3: "import_from s1 which_module ''which'' = Inr (VFunc which_module ''which'')"
    by (simp add: example_simps)
  from init_body_refines [OF h1 _ h3] h1 h2 h3 show ?thesis by blast
qed

end
