(* ===== verification/Spec2Isabelle.thy ===== *)
theory Spec2Isabelle
  imports PackageImport
begin

text \<open>
  \<^bold>\<open>What is modelled.\<close> The repository's source is one file,
  \<open>src/utils/swift_build_support/swift_build_support/__init__.py\<close>: the initializer of
  the package \<open>swift_build_support\<close>. At import time it runs two statements,
  \<open>from .which import which\<close> (line 18) and \<open>__all__ = [...]\<close> (lines 20 to 30), and
  its whole observable behaviour is what the Python import system does with them: the
  submodule \<open>swift_build_support.which\<close> is loaded, bound as an attribute of the
  package and then shadowed by the function it defines; \<open>__all__\<close> decides what
  \<open>from swift_build_support import *\<close> binds, and that statement imports every listed
  submodule the package does not already have. The development therefore models the
  initializer together with the part of CPython's import system it runs through.

  \<^bold>\<open>Theories.\<close>
  \<^item> \<open>Prelude\<close>: names and qualified names, ordered dictionaries as association
    lists, and the \<open>outcome\<close> type of every interpreter operation (out of fuel, an
    exception, or a value, each with the state reached) with its bind, catch and
    definedness order.
  \<^item> \<open>PyObjects\<close>: Python values, module objects (\<open>pymodule\<close>: a \<open>__path__\<close> flag
    and a \<open>__dict__\<close>), \<open>sys.modules\<close> (\<open>interp\<close>), the exceptions of the import
    system, the statements a module body runs at import time, and the non-recursive
    steps: \<open>setattr\<close>, registering and dropping a module, \<open>_resolve_name\<close>,
    \<open>IMPORT_FROM\<close> and \<open>import_all_from\<close>.
  \<^item> \<open>Importlib\<close>: \<open>_gcd_import\<close>, \<open>_find_and_load_unlocked\<close>, \<open>_load_unlocked\<close>,
    the execution of module bodies and \<open>_handle_fromlist\<close> as one mutually recursive
    function family with fuel; that more fuel never changes a result, that
    \<open>sys.modules\<close> only grows across an import, and what a single import returns.
  \<^item> \<open>Submodules\<close>: importing submodules of a loaded package whose files are missing
    or hold simple bodies, the from-list loop and \<open>from package import *\<close>.
  \<^item> \<open>SwiftBuildSupport\<close>: the initializer itself (\<open>swift_build_support\<close>,
    \<open>which_module\<close>, \<open>swift_all\<close>, \<open>init_body\<close>), the example file system
    \<open>example_fs\<close> and the first theorems about importing the package.
  \<^item> \<open>ImportTermination\<close>: that on a file system with finitely many source files
    some fuel always suffices (\<open>gcd_import_terminates\<close>), whatever the bodies import,
    circular imports included; the measure is the number of source files not yet
    loaded, then the length of the name.
  \<^item> \<open>ImportInvariants\<close>: any property of \<open>sys.modules\<close> kept by the primitive
    operations (\<open>prim_inv\<close>) is kept by every import (\<open>import_inv\<close>, one computation
    induction); instances: \<open>sys.modules\<close> has no duplicate names (\<open>wf_modules\<close>) and
    holds only modules with a source file.
  \<^item> \<open>PackageImport\<close>: the contract of the initializer on its namespace
    (\<open>init_spec\<close>) and the theorems about the package for any contents of the siblings.
  \<^item> this theory: a client module running \<open>from swift_build_support import *\<close>,
    imported from an empty \<open>sys.modules\<close>.

  \<^bold>\<open>What the theorems show.\<close> For any file system holding the initializer:
  \<^item> C1 \<open>package_import_binds_which\<close>: a successful import leaves the package with
    \<open>which\<close> bound to what \<open>which.py\<close> defines (the submodule binding made by the
    import system is overwritten) and \<open>__all__\<close> bound to the nine names;
  \<^item> C2 \<open>package_import_which_raises\<close>, C3 \<open>package_import_which_undefined\<close>:
    the error paths of line 18 (an exception raised by \<open>which.py\<close> propagates;
    a \<open>which.py\<close> without \<open>which\<close> gives \<open>ImportError\<close>), each removing the
    package from \<open>sys.modules\<close>;
  \<^item> C4 \<open>package_import_total\<close>: total correctness for any siblings on a finite file
    system (siblings that import the package back included): some fuel gives a
    result; an error leaves the package out of \<open>sys.modules\<close>, a success binds
    \<open>__all__\<close> and \<open>which\<close>;
  \<^item> C5 \<open>package_import_order\<close>: the order \<open>list(sys.modules)\<close> ends in
    (\<open>.which\<close> before the package, which was registered first);
  \<^item> C6 \<open>package_import_retry_fails\<close>: after line 18 failed for lack of \<open>which\<close>,
    the orphaned \<open>.which\<close> stays cached and every retry fails the same way, leaving
    \<open>sys.modules\<close> unchanged;
  \<^item> C7 \<open>client_star_import\<close> (this theory): the end-to-end run of a client whose
    body is the wildcard import, from an empty \<open>sys.modules\<close>: it binds \<open>which\<close> to
    the function, every other name of \<open>__all__\<close> to its submodule, and nothing else;
  \<^item> C8 \<open>init_body_refines\<close>: the initializer's body implements \<open>init_spec\<close> and
    touches no other module;
  \<^item> C9 \<open>client_star_import_missing\<close> (this theory): from the same empty state,
    with a sibling file missing, the client's import fails with \<open>AttributeError\<close>
    for the first missing name (not \<open>ModuleNotFoundError\<close>), the client is dropped
    and the package stays loaded; the state is the one the initializer produces,
    not an assumption.
  Each theorem with hypotheses has a witness evaluated by \<open>simp\<close> on \<open>example_fs\<close>,
  a small file system holding the initializer, a \<open>which.py\<close> with a chosen body,
  one-line siblings (some of them possibly absent) and a client module.

  \<^bold>\<open>Fuel.\<close> Each call of \<open>gcd_import\<close> spends one unit, so fuel bounds the nesting
  depth of imports; \<open>import_more_fuel\<close> shows that more fuel never changes a defined
  result and \<open>gcd_import_terminates\<close> that enough fuel exists on any finite file
  system, which is how C4 states totality. With a plain \<open>which.py\<close> the package
  needs two units and the client three (C7, C9); the theorems state the fuel they
  use, and by \<open>import_more_fuel\<close> any larger amount gives the same result.

  \<^bold>\<open>Not modelled.\<close> The sibling modules (\<open>cmake\<close>, \<open>debug\<close>, \<open>diagnostics\<close>,
  \<open>migration\<close>, \<open>tar\<close>, \<open>targets\<close>, \<open>toolchain\<close>, \<open>which\<close>, \<open>xcrun\<close>) are not
  in the sources: every theorem quantifies over the file system (\<open>finder\<close>) and states
  what it needs of them. Of the import system, module finders and loaders other than
  source files, import locks and threads, \<open>None\<close> entries in \<open>sys.modules\<close>, module
  \<open>__getattr__\<close>, \<open>import ... as\<close> and dunder attributes other than \<open>__path__\<close> and
  \<open>__all__\<close> are left out; a module object is identified by its qualified name.
  Lines 1 to 16 of the file are its licence header and a comment. The file has no
  pair of inverse operations (nothing is encoded and decoded) and no reactive
  behaviour, so there is no round-trip or liveness property to state beyond the
  termination theorems.
\<close>

section \<open>A client of the package\<close>

text \<open>
  The import of a client module whose body is the wildcard import, reduced to the
  statement it runs.
\<close>

lemma client_import_unfold:
  assumes "F client = Some (False, [ImportStar 0 swift_build_support])" and "\<not> loaded s client"
  shows "gcd_import (Suc (Suc n)) F client s =
    obind (ocatch (exec_stmt (Suc n) F client (ImportStar 0 swift_build_support) (add_module client False s))
                  (\<lambda>e s'. throw e (drop_module client s')))
          (\<lambda>_. move_to_end client)"
proof -
  have "client \<noteq> []" "butlast client = []" by (simp_all add: client_def)
  moreover have "exec_body (Suc n) F client [] = (\<lambda>s. ok () s)" by (rule ext) simp
  ultimately show ?thesis using assms by (simp add: Let_def del: exec_stmt.simps)
qed

text \<open>
  The state in which the client's wildcard import runs: with a plain \<open>which.py\<close> of
  simple statements binding \<open>which\<close>, the statement first imports the package
  (running the initializer), after which the package has exactly \<open>which\<close> and
  \<open>__all__\<close>, no sibling but \<open>.which\<close> is loaded, and \<open>_handle_fromlist\<close> can
  import every listed sibling that is missing or a plain simple module.
\<close>

lemma client_after_package:
  assumes "F swift_build_support = Some (True, init_body)"
    and "F which_module = Some (False, b)" and "simple_body b"
    and "body_attrs which_module b Map.empty ''which'' = Some v"
    and "\<forall>x\<in>set swift_all. x \<noteq> ''which'' \<longrightarrow>
           (case F (swift_build_support @ [x]) of None \<Rightarrow> True | Some (pkg, b') \<Rightarrow> \<not> pkg \<and> simple_body b')"
  shows "\<exists>s2. exec_stmt (Suc (Suc k)) F client (ImportStar 0 swift_build_support)
      (add_module client False empty_interp) =
     exec_stmt (Suc (Suc k)) F client (ImportStar 0 swift_build_support) s2 \<and>
    module_is_package s2 swift_build_support \<and> loaded s2 client \<and> (\<forall>y. mod_attr s2 client y = None) \<and>
    mod_attr s2 swift_build_support ''__all__'' = Some (VList (map VStr swift_all)) \<and>
    (\<forall>x\<in>set swift_all. sub_ok F s2 swift_build_support x) \<and>
    (\<forall>x\<in>set swift_all. fromlist_attr F s2 swift_build_support x =
       (if x = ''which'' then Some v
        else case F (swift_build_support @ [x]) of None \<Rightarrow> None
             | Some _ \<Rightarrow> Some (VModule (swift_build_support @ [x]))))"
proof -
  let ?P = swift_build_support and ?s0 = "add_module client False empty_interp"
  have ne: "client \<noteq> ?P" "which_module \<noteq> client" "\<forall>x. client \<noteq> ?P @ [x]"
    by (simp_all add: client_def swift_build_support_def which_module_def)
  have nl: "\<not> loaded ?s0 ?P" "\<not> loaded ?s0 which_module"
    using ne by (simp_all add: empty_interp_def loaded_def get_module_def add_module_def)
  from package_import_simple [where F = F and s = ?s0 and k = k, OF assms(1-4) nl]
  obtain s2 where g: "gcd_import (Suc (Suc k)) F ?P ?s0 = ok () s2" and
    a2: "mod_attr s2 ?P = [''which'' \<mapsto> v, ''__all__'' \<mapsto> VList (map VStr swift_all)]" and
    p2: "module_is_package s2 ?P" and
    m2: "mods s2 = insert which_module (insert ?P (mods ?s0))" and
    f2: "\<forall>q. q \<noteq> ?P \<longrightarrow> q \<noteq> which_module \<longrightarrow> get_module s2 q = get_module ?s0 q" by blast
  have st: "exec_stmt (Suc (Suc k)) F client (ImportStar 0 ?P) ?s0 =
      exec_stmt (Suc (Suc k)) F client (ImportStar 0 ?P) s2"
    using import_star_after_import [OF swift_names(1)] g by (simp add: ok_def)
  have "get_module s2 client = get_module ?s0 client" using f2 ne by auto
  then have c2: "mod_attr s2 client y = None" for y
    by (simp add: mod_attr_def get_module_def add_module_def empty_interp_def)
  have me: "mods empty_interp = {}" by (simp add: mods_def empty_interp_def)
  have wv: "mod_attr s2 ?P ''which'' = Some v" using a2 by simp
  have cond: "\<forall>x\<in>set swift_all. x \<noteq> ''which'' \<longrightarrow> mod_attr s2 ?P x = None \<and>
      \<not> loaded s2 (?P @ [x]) \<and>
      (case F (?P @ [x]) of None \<Rightarrow> True | Some (pkg, b) \<Rightarrow> \<not> pkg \<and> simple_body b)"
  proof (intro ballI impI conjI)
    fix x
    assume x: "x \<in> set swift_all" "x \<noteq> ''which''"
    then show "mod_attr s2 ?P x = None" using a2 swift_all_facts(2) by auto
    show "\<not> loaded s2 (?P @ [x])"
      using m2 me x ne(3) [rule_format, of x] by (auto simp: loaded_iff_mods which_module_def)
    show "case F (?P @ [x]) of None \<Rightarrow> True | Some (pkg, b) \<Rightarrow> \<not> pkg \<and> simple_body b"
      using assms(5) x by auto
  qed
  have lc: "loaded s2 client" using m2 by (simp add: loaded_iff_mods)
  have all: "mod_attr s2 ?P ''__all__'' = Some (VList (map VStr swift_all))" using a2 by simp
  have sub: "\<forall>x\<in>set swift_all. sub_ok F s2 ?P x" by (rule swift_sub_ok [OF wv cond])
  have fl: "\<forall>x\<in>set swift_all. fromlist_attr F s2 ?P x =
      (if x = ''which'' then Some v
       else case F (?P @ [x]) of None \<Rightarrow> None | Some _ \<Rightarrow> Some (VModule (?P @ [x])))"
    using swift_fromlist_attr [OF wv, of _ F] cond by auto
  show ?thesis using st p2 lc c2 all sub fl by blast
qed

text \<open>
  C7. End to end: a client module whose body is \<open>from swift_build_support import *\<close>,
  imported into a fresh interpreter, imports the package (running the initializer,
  which imports \<open>.which\<close>), then every other sibling named in \<open>__all__\<close>, and ends
  with exactly the nine names of \<open>__all__\<close>: \<open>which\<close> bound to what \<open>which.py\<close>
  defines and every other name to its submodule.
\<close>

theorem client_star_import:
  assumes "F swift_build_support = Some (True, init_body)"
    and "F which_module = Some (False, b)" and "simple_body b"
    and "body_attrs which_module b Map.empty ''which'' = Some v"
    and "\<forall>x\<in>set swift_all. x \<noteq> ''which'' \<longrightarrow>
           (\<exists>b'. F (swift_build_support @ [x]) = Some (False, b') \<and> simple_body b')"
    and "F client = Some (False, [ImportStar 0 swift_build_support])"
  shows "\<exists>s'. gcd_import (Suc (Suc (Suc k))) F client empty_interp = ok () s' \<and>
           mod_attr s' client ''which'' = Some v \<and>
           (\<forall>x\<in>set swift_all. x \<noteq> ''which'' \<longrightarrow>
              mod_attr s' client x = Some (VModule (swift_build_support @ [x]))) \<and>
           (\<forall>y. y \<notin> set swift_all \<longrightarrow> mod_attr s' client y = None)"
proof -
  let ?P = swift_build_support
  have sib: "\<forall>x\<in>set swift_all. x \<noteq> ''which'' \<longrightarrow>
      (case F (?P @ [x]) of None \<Rightarrow> True | Some (pkg, b') \<Rightarrow> \<not> pkg \<and> simple_body b')"
    using assms(5) by auto
  obtain s2 where st: "exec_stmt (Suc (Suc k)) F client (ImportStar 0 ?P) (add_module client False empty_interp) =
      exec_stmt (Suc (Suc k)) F client (ImportStar 0 ?P) s2"
    and p2: "module_is_package s2 ?P" and lc: "loaded s2 client" and c2: "\<forall>y. mod_attr s2 client y = None"
    and all: "mod_attr s2 ?P ''__all__'' = Some (VList (map VStr swift_all))"
    and sub: "\<forall>x\<in>set swift_all. sub_ok F s2 ?P x"
    and fl: "\<forall>x\<in>set swift_all. fromlist_attr F s2 ?P x =
       (if x = ''which'' then Some v else case F (?P @ [x]) of None \<Rightarrow> None | Some _ \<Rightarrow> Some (VModule (?P @ [x])))"
    using client_after_package [where k = k, OF assms(1-4) sib] by blast
  have fa: "fromlist_attr F s2 ?P x = (if x = ''which'' then Some v else Some (VModule (?P @ [x])))"
    if "x \<in> set swift_all" for x
    using fl assms(5) that by auto
  then have "\<forall>x\<in>set swift_all. fromlist_attr F s2 ?P x \<noteq> None" by simp
  moreover have ne: "client \<noteq> ?P" "\<forall>x\<in>set swift_all. client \<noteq> ?P @ [x]"
    by (simp_all add: client_def swift_build_support_def)
  ultimately obtain s3 where e3: "exec_stmt (Suc (Suc k)) F client (ImportStar 0 ?P) s2 = ok () s3" and
    a3: "\<forall>y. mod_attr s3 client y =
      (if y \<in> set swift_all then fromlist_attr F s2 ?P y else mod_attr s2 client y)"
    using import_star_ok [OF swift_names(1) p2 lc ne(1) all swift_all_facts(2,1) sub ne(2), of "Suc k"]
    by blast
  have "loaded s3 client"
    using import_mods_mono(5) [OF e3 [unfolded ok_def]] lc by (auto simp: loaded_iff_mods)
  from move_to_end_loaded [OF this] obtain s' where
    mv: "move_to_end client s3 = ok () s'" and gs: "get_module s' = get_module s3" by blast
  have nl: "\<not> loaded empty_interp client" by (simp add: empty_interp_def loaded_def get_module_def)
  have "gcd_import (Suc (Suc (Suc k))) F client empty_interp = ok () s'"
    using client_import_unfold [where F = F and s = empty_interp and n = "Suc k", OF assms(6) nl] st e3 mv
    by simp
  moreover have "mod_attr s' = mod_attr s3" using gs by (rule mod_attr_cong_get_module)
  ultimately show ?thesis using a3 fa c2 by auto
qed

theorem client_star_import_witness:
  "example_fs [Def ''which''] [] swift_build_support = Some (True, init_body) \<and>
   example_fs [Def ''which''] [] which_module = Some (False, [Def ''which'']) \<and>
   simple_body [Def ''which''] \<and>
   body_attrs which_module [Def ''which''] Map.empty ''which'' = Some (VFunc which_module ''which'') \<and>
   example_fs [Def ''which''] [] client = Some (False, [ImportStar 0 swift_build_support]) \<and>
   (\<exists>s'. gcd_import (Suc (Suc (Suc 0))) (example_fs [Def ''which''] []) client empty_interp = ok () s' \<and>
      mod_attr s' client ''which'' = Some (VFunc which_module ''which'') \<and>
      mod_attr s' client ''cmake'' = Some (VModule (swift_build_support @ [''cmake''])) \<and>
      mod_attr s' client ''xcrun'' = Some (VModule (swift_build_support @ [''xcrun''])) \<and>
      mod_attr s' client ''__all__'' = None)"
proof -
  have h1: "example_fs [Def ''which''] [] swift_build_support = Some (True, init_body)"
    and h2: "example_fs [Def ''which''] [] which_module = Some (False, [Def ''which''])"
    and h3: "simple_body [Def ''which'']"
    and h4: "body_attrs which_module [Def ''which''] Map.empty ''which'' = Some (VFunc which_module ''which'')"
    and h6: "example_fs [Def ''which''] [] client = Some (False, [ImportStar 0 swift_build_support])"
    by (simp_all add: example_simps)
  have h5: "\<forall>x\<in>set swift_all. x \<noteq> ''which'' \<longrightarrow>
      (\<exists>b'. example_fs [Def ''which''] [] (swift_build_support @ [x]) = Some (False, b') \<and> simple_body b')"
    by (simp add: example_simps)
  from client_star_import [where F = "example_fs [Def ''which''] []", OF h1 h2 h3 h4 h5 h6, of 0]
  obtain s' where g: "gcd_import (Suc (Suc (Suc 0))) (example_fs [Def ''which''] []) client empty_interp
      = ok () s'" and w: "mod_attr s' client ''which'' = Some (VFunc which_module ''which'')"
    and a: "\<forall>x\<in>set swift_all. x \<noteq> ''which'' \<longrightarrow>
      mod_attr s' client x = Some (VModule (swift_build_support @ [x]))"
    and n: "\<forall>y. y \<notin> set swift_all \<longrightarrow> mod_attr s' client y = None" by blast
  have "mod_attr s' client ''cmake'' = Some (VModule (swift_build_support @ [''cmake'']))"
    and "mod_attr s' client ''xcrun'' = Some (VModule (swift_build_support @ [''xcrun'']))"
    using a by (simp_all add: swift_all_def)
  moreover have "mod_attr s' client ''__all__'' = None" using n swift_all_facts(2) by blast
  ultimately show ?thesis using g w h1 h2 h3 h4 h6 by blast
qed

text \<open>
  C9. End to end, with a sibling missing: if the first sibling of \<open>__all__\<close> (in the
  order of lines 21 to 29) without a file is \<open>y\<close>, the client's wildcard import does
  not fail with \<open>ModuleNotFoundError\<close> (\<open>_handle_fromlist\<close> swallows it) but with
  \<open>AttributeError\<close> for \<open>y\<close> from \<open>import_all_from\<close>; the client is removed from
  \<open>sys.modules\<close>, while the package it imported stays loaded.
\<close>

theorem client_star_import_missing:
  assumes "F swift_build_support = Some (True, init_body)"
    and "F which_module = Some (False, b)" and "simple_body b"
    and "body_attrs which_module b Map.empty ''which'' = Some v"
    and "\<forall>x\<in>set swift_all. x \<noteq> ''which'' \<longrightarrow>
           (case F (swift_build_support @ [x]) of None \<Rightarrow> True | Some (pkg, b') \<Rightarrow> \<not> pkg \<and> simple_body b')"
    and "swift_all = ys @ y # zs" and "y \<noteq> ''which''" and "F (swift_build_support @ [y]) = None"
    and "\<forall>x\<in>set ys. x \<noteq> ''which'' \<longrightarrow> F (swift_build_support @ [x]) \<noteq> None"
    and "F client = Some (False, [ImportStar 0 swift_build_support])"
  shows "\<exists>s'. gcd_import (Suc (Suc (Suc k))) F client empty_interp =
             throw (AttributeError swift_build_support y) s' \<and>
           \<not> loaded s' client \<and> loaded s' swift_build_support"
proof -
  let ?P = swift_build_support
  obtain s2 where st: "exec_stmt (Suc (Suc k)) F client (ImportStar 0 ?P) (add_module client False empty_interp) =
      exec_stmt (Suc (Suc k)) F client (ImportStar 0 ?P) s2"
    and p2: "module_is_package s2 ?P" and lc: "loaded s2 client"
    and all: "mod_attr s2 ?P ''__all__'' = Some (VList (map VStr swift_all))"
    and sub: "\<forall>x\<in>set swift_all. sub_ok F s2 ?P x"
    and fl: "\<forall>x\<in>set swift_all. fromlist_attr F s2 ?P x =
       (if x = ''which'' then Some v else case F (?P @ [x]) of None \<Rightarrow> None | Some _ \<Rightarrow> Some (VModule (?P @ [x])))"
    using client_after_package [where k = k, OF assms(1-5)] by blast
  have ys: "\<forall>x\<in>set ys. fromlist_attr F s2 ?P x \<noteq> None"
    using fl assms(9) unfolding assms(6) by (auto split: option.splits)
  have yn: "fromlist_attr F s2 ?P y = None"
    using fl assms(7,8) unfolding assms(6) by simp
  have ne: "client \<noteq> ?P" "\<forall>x\<in>set (ys @ y # zs). client \<noteq> ?P @ [x]"
    by (simp_all add: client_def swift_build_support_def)
  have "mod_attr s2 ?P ''__all__'' = Some (VList (map VStr (ys @ y # zs)))"
    and "''__all__'' \<notin> set (ys @ y # zs)" and "distinct (ys @ y # zs)"
    and "\<forall>x\<in>set (ys @ y # zs). sub_ok F s2 ?P x"
    using all sub swift_all_facts(1,2) unfolding assms(6) by simp_all
  from import_star_missing [OF swift_names(1) p2 lc ne(1) this ne(2) ys yn, of "Suc k"]
  obtain s3 where e3: "exec_stmt (Suc (Suc k)) F client (ImportStar 0 ?P) s2 =
      throw (AttributeError ?P y) s3" by blast
  have "loaded s2 ?P" using p2 by (auto simp: module_is_package_def loaded_def split: option.splits)
  then have "loaded s3 ?P"
    using import_mods_mono(5) [OF e3 [unfolded throw_def]] by (auto simp: loaded_iff_mods)
  moreover have nl: "\<not> loaded empty_interp client" by (simp add: empty_interp_def loaded_def get_module_def)
  ultimately show ?thesis
    using client_import_unfold [where F = F and s = empty_interp and n = "Suc k", OF assms(10) nl] st e3 ne(1)
    by (simp add: loaded_iff_mods)
qed

theorem client_star_import_missing_witness:
  "example_fs [Def ''which''] [''tar''] swift_build_support = Some (True, init_body) \<and>
   example_fs [Def ''which''] [''tar''] which_module = Some (False, [Def ''which'']) \<and>
   simple_body [Def ''which''] \<and>
   body_attrs which_module [Def ''which''] Map.empty ''which'' = Some (VFunc which_module ''which'') \<and>
   swift_all = [''cmake'', ''debug'', ''diagnostics'', ''migration''] @ ''tar'' #
     [''targets'', ''toolchain'', ''which'', ''xcrun''] \<and>
   example_fs [Def ''which''] [''tar''] (swift_build_support @ [''tar'']) = None \<and>
   example_fs [Def ''which''] [''tar''] client = Some (False, [ImportStar 0 swift_build_support]) \<and>
   (\<exists>s'. gcd_import (Suc (Suc (Suc 0))) (example_fs [Def ''which''] [''tar'']) client empty_interp =
      throw (AttributeError swift_build_support ''tar'') s' \<and>
      \<not> loaded s' client \<and> loaded s' swift_build_support)"
proof -
  define F where "F = example_fs [Def ''which''] [''tar'']"
  have h1: "F swift_build_support = Some (True, init_body)"
    and h2: "F which_module = Some (False, [Def ''which''])"
    and h3: "simple_body [Def ''which'']"
    and h4: "body_attrs which_module [Def ''which''] Map.empty ''which'' = Some (VFunc which_module ''which'')"
    and h6: "swift_all = [''cmake'', ''debug'', ''diagnostics'', ''migration''] @ ''tar'' #
       [''targets'', ''toolchain'', ''which'', ''xcrun'']"
    and h7: "''tar'' \<noteq> ''which''"
    and h8: "F (swift_build_support @ [''tar'']) = None"
    and h10: "F client = Some (False, [ImportStar 0 swift_build_support])"
    by (simp_all add: F_def example_simps)
  have h5: "\<forall>x\<in>set swift_all. x \<noteq> ''which'' \<longrightarrow>
      (case F (swift_build_support @ [x]) of None \<Rightarrow> True | Some (pkg, b') \<Rightarrow> \<not> pkg \<and> simple_body b')"
    and h9: "\<forall>x\<in>set [''cmake'', ''debug'', ''diagnostics'', ''migration'']. x \<noteq> ''which'' \<longrightarrow>
      F (swift_build_support @ [x]) \<noteq> None"
    by (simp_all add: F_def example_simps del: not_None_eq)
  from client_star_import_missing [where F = F, OF h1 h2 h3 h4 h5 h6 h7 h8 h9 h10, of 0]
  obtain s' where "gcd_import (Suc (Suc (Suc 0))) F client empty_interp =
      throw (AttributeError swift_build_support ''tar'') s'"
    and "\<not> loaded s' client" and "loaded s' swift_build_support" by blast
  with h1 h2 h3 h4 h6 h8 h10 show ?thesis unfolding F_def by blast
qed

end
